theory Spec2Isabelle
  imports
    Main
    "HOL-Library.Word"
    "HOL-Library.Char_ord"
    "HOL-Library.List_Lexorder"
begin

section \<open>The raw key-value client of rawkv/rawkv.go\<close>

text \<open>
  The client turns each user operation into per-region RPCs. Its collaborators (the
  placement client, the region cache, the RPC transport with its request sender, the
  retry package and the message types) are not part of the file: the model takes their
  behaviour as a parameter, a record of functions over a world state of any type, and
  records every call to one of them in a trace. Metrics are left out.
\<close>

subsection \<open>Data\<close>

text \<open>
  A Go byte slice used as a key is a \<open>string\<close> (a list of 8-bit characters, ordered
  lexicographically as \<open>bytes.Compare\<close> orders them): the code applies \<open>len\<close>,
  \<open>bytes.Equal\<close>, \<open>bytes.Compare\<close> and the conversion \<open>string(key)\<close> to keys, and
  none of them tells a nil slice from an empty one. A value is a slice that may be nil:
  \<open>None\<close> is nil.
\<close>

type_synonym bytes = string
type_synonym gobytes = "string option"
type_synonym handle = nat
type_synonym RegionVerID = nat
type_synonym RegionError = string

definition len :: "gobytes \<Rightarrow> nat" where
  "len v = (case v of None \<Rightarrow> 0 | Some x \<Rightarrow> length x)"

definition bytes_Compare :: "bytes \<Rightarrow> bytes \<Rightarrow> int" where
  "bytes_Compare a b = (if a < b then - 1 else if a = b then 0 else 1)"

definition bytes_Equal :: "bytes \<Rightarrow> bytes \<Rightarrow> bool" where
  "bytes_Equal a b = (a = b)"

text \<open>
  Errors are values. \<open>ErrNew msg\<close> is \<open>errors.New(msg)\<close>; \<open>errors.WithStack\<close> only
  attaches a stack trace and is the identity here. A Go panic is the error \<open>Panic\<close>.
\<close>

datatype error =
    ErrNew string
  | ErrBodyMissing
  | Panic string

definition ErrMaxScanLimitExceeded :: error where
  "ErrMaxScanLimitExceeded = ErrNew ''limit should be less than MaxRawKVScanLimit''"

definition MaxRawKVScanLimit :: int where
  "MaxRawKVScanLimit = 10240"

definition rawBatchPutSize :: nat where
  "rawBatchPutSize = 16 * 1024"

definition rawBatchPairCount :: nat where
  "rawBatchPairCount = 512"

definition rawkvMaxBackoff :: int where
  "rawkvMaxBackoff = 20000"

text \<open>The retry package's backoff configuration, by its name.\<close>

definition BoRegionMiss :: string where
  "BoRegionMiss = ''regionMiss''"

record KeyLocation =
  Region :: RegionVerID
  StartKey :: bytes
  EndKey :: bytes

record KvPair =
  Key :: bytes
  Val :: gobytes

datatype CmdType =
    CmdRawGet | CmdRawBatchGet | CmdRawPut | CmdRawBatchPut | CmdRawDelete
  | CmdRawBatchDelete | CmdRawDeleteRange | CmdRawScan | CmdGetKeyTTL
  | CmdRawCompareAndSwap

text \<open>The request messages, with their fields in the order of the comments.\<close>

datatype ReqBody =
    RawGetRequest bytes
  | RawBatchGetRequest "bytes list"
  | RawPutRequest bytes gobytes "64 word" bool
      \<comment> \<open>Key, Value, Ttl, ForCas\<close>
  | RawBatchPutRequest "KvPair list" bool "64 word list"
      \<comment> \<open>Pairs, ForCas, Ttls\<close>
  | RawDeleteRequest bytes bool
      \<comment> \<open>Key, ForCas\<close>
  | RawBatchDeleteRequest "bytes list" bool
      \<comment> \<open>Keys, ForCas\<close>
  | RawDeleteRangeRequest bytes bytes
      \<comment> \<open>StartKey, EndKey\<close>
  | RawScanRequest bytes bytes "32 word" bool
      \<comment> \<open>StartKey, EndKey, Limit, Reverse\<close>
  | RawGetKeyTTLRequest bytes
  | RawCASRequest bytes gobytes bool gobytes
      \<comment> \<open>Key, Value, PreviousNotExist, PreviousValue\<close>

record Request =
  Type :: CmdType
  Req :: ReqBody
  MaxExecutionDurationMs :: "64 word"

definition NewRequest :: "CmdType \<Rightarrow> ReqBody \<Rightarrow> Request" where
  "NewRequest t b = \<lparr>Type = t, Req = b, MaxExecutionDurationMs = 0\<rparr>"

text \<open>The response messages; the first field of most is the server's error string.\<close>

datatype RespBody =
    RawGetResponse string gobytes
  | RawBatchGetResponse "KvPair list"
  | RawPutResponse string
  | RawBatchPutResponse string
  | RawDeleteResponse string
  | RawBatchDeleteResponse string
  | RawDeleteRangeResponse string
  | RawScanResponse "KvPair list"
  | RawGetKeyTTLResponse string bool "64 word"
      \<comment> \<open>Error, NotFound, Ttl\<close>
  | RawCASResponse string bool bool gobytes
      \<comment> \<open>Error, Succeed, PreviousNotExist, PreviousValue\<close>

text \<open>
  A response envelope; \<open>Resp = None\<close> is the nil body. The region error that a
  message carries, which the client reaches only through \<open>GetRegionError\<close>, is kept
  beside the body.
\<close>

record Response =
  Resp :: "RespBody option"
  RegionErr :: "RegionError option"

text \<open>
  The client. Its three collaborators are references that may be nil (\<open>None\<close>); the
  collaborators themselves live in the world.
\<close>

record Client =
  clusterID :: "64 word"
  regionCache :: "handle option"
  pdClient :: "handle option"
  rpcClient :: "handle option"
  atomic :: bool

definition SetAtomicForCAS :: "Client \<Rightarrow> bool \<Rightarrow> Client" where
  "SetAtomicForCAS c b = c\<lparr>atomic := b\<rparr>"

definition ClusterID :: "Client \<Rightarrow> 64 word" where
  "ClusterID c = clusterID c"

subsection \<open>The collaborators\<close>

text \<open>
  Every call the client makes to code outside the file. A backoffer is a reference
  (\<open>handle\<close>) to a retry budget held in the world. \<open>SendReq\<close> is the method of the
  request sender built from the client's cache and transport; its timeout argument is
  always \<open>client.ReadTimeoutShort\<close> and is left out. \<open>GroupKeysByRegion\<close> returns a Go
  map, given here as the list of its entries in the order the \<open>range\<close> loop visits them.
\<close>

record Batch =
  RegionID :: RegionVerID
  Keys :: "bytes list"
  Values :: "gobytes list"
  TTLs :: "64 word list"

record 'w env =
  NewBackofferWithVars :: "int \<Rightarrow> 'w \<Rightarrow> handle \<times> 'w"
  Fork :: "handle \<Rightarrow> 'w \<Rightarrow> handle \<times> 'w"
  Cancel :: "handle \<Rightarrow> 'w \<Rightarrow> 'w"
  Backoff :: "handle \<Rightarrow> string \<Rightarrow> error \<Rightarrow> 'w \<Rightarrow> error option \<times> 'w"
  LocateKey :: "handle option \<Rightarrow> handle \<Rightarrow> bytes \<Rightarrow> 'w \<Rightarrow> (error + KeyLocation) \<times> 'w"
  LocateEndKey :: "handle option \<Rightarrow> handle \<Rightarrow> bytes \<Rightarrow> 'w \<Rightarrow> (error + KeyLocation) \<times> 'w"
  GroupKeysByRegion :: "handle option \<Rightarrow> handle \<Rightarrow> bytes list \<Rightarrow> 'w
    \<Rightarrow> (error + (RegionVerID \<times> bytes list) list) \<times> 'w"
  SendReq :: "handle option \<Rightarrow> handle option \<Rightarrow> handle \<Rightarrow> Request \<Rightarrow> RegionVerID \<Rightarrow> 'w
    \<Rightarrow> (error + Response) \<times> 'w"
  GetRegionError :: "Response \<Rightarrow> error + RegionError option"
  AppendKeyBatches :: "Batch list \<Rightarrow> RegionVerID \<Rightarrow> bytes list \<Rightarrow> nat \<Rightarrow> Batch list"
  AppendBatches :: "Batch list \<Rightarrow> RegionVerID \<Rightarrow> bytes list \<Rightarrow> (bytes \<rightharpoonup> gobytes)
    \<Rightarrow> (bytes \<rightharpoonup> 64 word) \<Rightarrow> nat \<Rightarrow> Batch list"
  MaxWriteExecutionTime :: "64 word"
  pd_Close :: "handle \<Rightarrow> 'w \<Rightarrow> 'w"
  cache_Close :: "handle \<Rightarrow> 'w \<Rightarrow> 'w"
  rpc_Close :: "handle \<Rightarrow> 'w \<Rightarrow> error option \<times> 'w"

text \<open>The calls made so far, each with its arguments and what it returned.\<close>

datatype event =
    EvNewBackoffer int handle
  | EvFork handle handle
  | EvCancel handle
  | EvBackoff handle string error "error option"
  | EvLocateKey handle bytes "error + KeyLocation"
  | EvLocateEndKey handle bytes "error + KeyLocation"
  | EvGroupKeysByRegion handle "bytes list" "error + (RegionVerID \<times> bytes list) list"
  | EvSendReq handle Request RegionVerID "error + Response"
  | EvClosePD handle
  | EvCloseCache handle
  | EvCloseRPC handle "error option"
  | EvLogError string

record 'w state =
  world :: 'w
  trace :: "event list"

definition call_NewBackofferWithVars :: "'w env \<Rightarrow> int \<Rightarrow> 'w state \<Rightarrow> handle \<times> 'w state" where
  "call_NewBackofferWithVars E n s =
     (case NewBackofferWithVars E n (world s) of
        (bo, w) \<Rightarrow> (bo, \<lparr>world = w, trace = trace s @ [EvNewBackoffer n bo]\<rparr>))"

definition call_Fork :: "'w env \<Rightarrow> handle \<Rightarrow> 'w state \<Rightarrow> handle \<times> 'w state" where
  "call_Fork E bo s =
     (case Fork E bo (world s) of
        (child, w) \<Rightarrow> (child, \<lparr>world = w, trace = trace s @ [EvFork bo child]\<rparr>))"

definition call_Cancel :: "'w env \<Rightarrow> handle \<Rightarrow> 'w state \<Rightarrow> 'w state" where
  "call_Cancel E bo s = \<lparr>world = Cancel E bo (world s), trace = trace s @ [EvCancel bo]\<rparr>"

definition call_Backoff :: "'w env \<Rightarrow> handle \<Rightarrow> string \<Rightarrow> error \<Rightarrow> 'w state
    \<Rightarrow> error option \<times> 'w state" where
  "call_Backoff E bo cfg cause s =
     (case Backoff E bo cfg cause (world s) of
        (r, w) \<Rightarrow> (r, \<lparr>world = w, trace = trace s @ [EvBackoff bo cfg cause r]\<rparr>))"

definition call_LocateKey :: "'w env \<Rightarrow> Client \<Rightarrow> handle \<Rightarrow> bytes \<Rightarrow> 'w state
    \<Rightarrow> (error + KeyLocation) \<times> 'w state" where
  "call_LocateKey E c bo k s =
     (case LocateKey E (regionCache c) bo k (world s) of
        (r, w) \<Rightarrow> (r, \<lparr>world = w, trace = trace s @ [EvLocateKey bo k r]\<rparr>))"

definition call_LocateEndKey :: "'w env \<Rightarrow> Client \<Rightarrow> handle \<Rightarrow> bytes \<Rightarrow> 'w state
    \<Rightarrow> (error + KeyLocation) \<times> 'w state" where
  "call_LocateEndKey E c bo k s =
     (case LocateEndKey E (regionCache c) bo k (world s) of
        (r, w) \<Rightarrow> (r, \<lparr>world = w, trace = trace s @ [EvLocateEndKey bo k r]\<rparr>))"

definition call_GroupKeysByRegion :: "'w env \<Rightarrow> Client \<Rightarrow> handle \<Rightarrow> bytes list \<Rightarrow> 'w state
    \<Rightarrow> (error + (RegionVerID \<times> bytes list) list) \<times> 'w state" where
  "call_GroupKeysByRegion E c bo ks s =
     (case GroupKeysByRegion E (regionCache c) bo ks (world s) of
        (r, w) \<Rightarrow> (r, \<lparr>world = w, trace = trace s @ [EvGroupKeysByRegion bo ks r]\<rparr>))"

definition call_SendReq :: "'w env \<Rightarrow> Client \<Rightarrow> handle \<Rightarrow> Request \<Rightarrow> RegionVerID \<Rightarrow> 'w state
    \<Rightarrow> (error + Response) \<times> 'w state" where
  "call_SendReq E c bo req region s =
     (case SendReq E (regionCache c) (rpcClient c) bo req region (world s) of
        (r, w) \<Rightarrow> (r, \<lparr>world = w, trace = trace s @ [EvSendReq bo req region r]\<rparr>))"

definition log_Error :: "string \<Rightarrow> 'w state \<Rightarrow> 'w state" where
  "log_Error msg s = s\<lparr>trace := trace s @ [EvLogError msg]\<rparr>"

subsection \<open>Close\<close>

definition Close :: "'w env \<Rightarrow> Client \<Rightarrow> 'w state \<Rightarrow> error option \<times> 'w state" where
  "Close E c s =
     (let s1 = (case pdClient c of
                  None \<Rightarrow> s
                | Some pd \<Rightarrow> \<lparr>world = pd_Close E pd (world s), trace = trace s @ [EvClosePD pd]\<rparr>);
          s2 = (case regionCache c of
                  None \<Rightarrow> s1
                | Some rc \<Rightarrow>
                    \<lparr>world = cache_Close E rc (world s1), trace = trace s1 @ [EvCloseCache rc]\<rparr>)
      in case rpcClient c of
           None \<Rightarrow> (None, s2)
         | Some rpc \<Rightarrow>
             (case rpc_Close E rpc (world s2) of
                (r, w) \<Rightarrow> (r, \<lparr>world = w, trace = trace s2 @ [EvCloseRPC rpc r]\<rparr>)))"

subsection \<open>The single-key dispatcher\<close>

partial_function (option) sendReq_loop :: "'w env \<Rightarrow> Client \<Rightarrow> handle \<Rightarrow> bytes \<Rightarrow> Request
    \<Rightarrow> bool \<Rightarrow> 'w state \<Rightarrow> ((error + Response \<times> KeyLocation) \<times> 'w state) option" where
  "sendReq_loop E c bo key req reverse s =
     (case (if reverse then call_LocateEndKey E c bo key s else call_LocateKey E c bo key s) of
        (Inl err, s1) \<Rightarrow> Some (Inl err, s1)
      | (Inr loc, s1) \<Rightarrow>
          (case call_SendReq E c bo req (Region loc) s1 of
             (Inl err, s2) \<Rightarrow> Some (Inl err, s2)
           | (Inr resp, s2) \<Rightarrow>
               (case GetRegionError E resp of
                  Inl err \<Rightarrow> Some (Inl err, s2)
                | Inr (Some regionErr) \<Rightarrow>
                    (case call_Backoff E bo BoRegionMiss (ErrNew regionErr) s2 of
                       (Some err, s3) \<Rightarrow> Some (Inl err, s3)
                     | (None, s3) \<Rightarrow> sendReq_loop E c bo key req reverse s3)
                | Inr None \<Rightarrow> Some (Inr (resp, loc), s2))))"

definition sendReq :: "'w env \<Rightarrow> Client \<Rightarrow> bytes \<Rightarrow> Request \<Rightarrow> bool \<Rightarrow> 'w state
    \<Rightarrow> ((error + Response \<times> KeyLocation) \<times> 'w state) option" where
  "sendReq E c key req reverse s =
     (case call_NewBackofferWithVars E rawkvMaxBackoff s of
        (bo, s0) \<Rightarrow> sendReq_loop E c bo key req reverse s0)"

subsection \<open>Scans\<close>

text \<open>
  The accumulators \<open>keys\<close> and \<open>values\<close> are the named results of the Go function;
  \<open>uint32(limit - len(keys))\<close> is the conversion of an \<open>int\<close> to 32 bits. A type
  assertion on a body of another message type panics.
\<close>

partial_function (option) Scan_loop :: "'w env \<Rightarrow> Client \<Rightarrow> bytes \<Rightarrow> bytes \<Rightarrow> int
    \<Rightarrow> bytes list \<Rightarrow> gobytes list \<Rightarrow> 'w state
    \<Rightarrow> ((error + bytes list \<times> gobytes list) \<times> 'w state) option" where
  "Scan_loop E c startKey endKey limit keys vals s =
     (if int (length keys) < limit \<and> (length endKey = 0 \<or> bytes_Compare startKey endKey < 0)
      then
        (case sendReq E c startKey
                (NewRequest CmdRawScan
                   (RawScanRequest startKey endKey (word_of_int (limit - int (length keys))) False))
                False s of
           None \<Rightarrow> None
         | Some (Inl err, s1) \<Rightarrow> Some (Inl err, s1)
         | Some (Inr (resp, loc), s1) \<Rightarrow>
             (case Resp resp of
                None \<Rightarrow> Some (Inl ErrBodyMissing, s1)
              | Some (RawScanResponse kvs) \<Rightarrow>
                  (if length (EndKey loc) = 0
                   then Some (Inr (keys @ map Key kvs, vals @ map Val kvs), s1)
                   else Scan_loop E c (EndKey loc) endKey limit
                          (keys @ map Key kvs) (vals @ map Val kvs) s1)
              | Some _ \<Rightarrow> Some (Inl (Panic ''interface conversion''), s1)))
      else Some (Inr (keys, vals), s))"

definition Scan :: "'w env \<Rightarrow> Client \<Rightarrow> bytes \<Rightarrow> bytes \<Rightarrow> int \<Rightarrow> 'w state
    \<Rightarrow> ((error + bytes list \<times> gobytes list) \<times> 'w state) option" where
  "Scan E c startKey endKey limit s =
     (if limit > MaxRawKVScanLimit then Some (Inl ErrMaxScanLimitExceeded, s)
      else Scan_loop E c startKey endKey limit [] [] s)"

partial_function (option) ReverseScan_loop :: "'w env \<Rightarrow> Client \<Rightarrow> bytes \<Rightarrow> bytes \<Rightarrow> int
    \<Rightarrow> bytes list \<Rightarrow> gobytes list \<Rightarrow> 'w state
    \<Rightarrow> ((error + bytes list \<times> gobytes list) \<times> 'w state) option" where
  "ReverseScan_loop E c startKey endKey limit keys vals s =
     (if int (length keys) < limit \<and> bytes_Compare startKey endKey > 0
      then
        (case sendReq E c startKey
                (NewRequest CmdRawScan
                   (RawScanRequest startKey endKey (word_of_int (limit - int (length keys))) True))
                True s of
           None \<Rightarrow> None
         | Some (Inl err, s1) \<Rightarrow> Some (Inl err, s1)
         | Some (Inr (resp, loc), s1) \<Rightarrow>
             (case Resp resp of
                None \<Rightarrow> Some (Inl ErrBodyMissing, s1)
              | Some (RawScanResponse kvs) \<Rightarrow>
                  (if length (StartKey loc) = 0
                   then Some (Inr (keys @ map Key kvs, vals @ map Val kvs), s1)
                   else ReverseScan_loop E c (StartKey loc) endKey limit
                          (keys @ map Key kvs) (vals @ map Val kvs) s1)
              | Some _ \<Rightarrow> Some (Inl (Panic ''interface conversion''), s1)))
      else Some (Inr (keys, vals), s))"

definition ReverseScan :: "'w env \<Rightarrow> Client \<Rightarrow> bytes \<Rightarrow> bytes \<Rightarrow> int \<Rightarrow> 'w state
    \<Rightarrow> ((error + bytes list \<times> gobytes list) \<times> 'w state) option" where
  "ReverseScan E c startKey endKey limit s =
     (if limit > MaxRawKVScanLimit then Some (Inl ErrMaxScanLimitExceeded, s)
      else ReverseScan_loop E c startKey endKey limit [] [] s)"

subsection \<open>Single-key writes\<close>

definition PutWithTTL :: "'w env \<Rightarrow> Client \<Rightarrow> bytes \<Rightarrow> gobytes \<Rightarrow> 64 word \<Rightarrow> 'w state
    \<Rightarrow> (error option \<times> 'w state) option" where
  "PutWithTTL E c key val ttl s =
     (if len val = 0 then Some (Some (ErrNew ''empty value is not supported''), s)
      else
        (case sendReq E c key (NewRequest CmdRawPut (RawPutRequest key val ttl (atomic c)))
                False s of
           None \<Rightarrow> None
         | Some (Inl err, s1) \<Rightarrow> Some (Some err, s1)
         | Some (Inr (resp, loc), s1) \<Rightarrow>
             (case Resp resp of
                None \<Rightarrow> Some (Some ErrBodyMissing, s1)
              | Some (RawPutResponse e) \<Rightarrow>
                  (if e \<noteq> [] then Some (Some (ErrNew e), s1) else Some (None, s1))
              | Some _ \<Rightarrow> Some (Some (Panic ''interface conversion''), s1))))"

definition Put :: "'w env \<Rightarrow> Client \<Rightarrow> bytes \<Rightarrow> gobytes \<Rightarrow> 'w state
    \<Rightarrow> (error option \<times> 'w state) option" where
  "Put E c key val s = PutWithTTL E c key val 0 s"

text \<open>
  \<open>CompareAndSwap\<close> returns the previous value and whether the swap happened, or an
  error. A nil \<open>previousValue\<close> asks for the key not to exist.
\<close>

definition CompareAndSwap :: "'w env \<Rightarrow> Client \<Rightarrow> bytes \<Rightarrow> gobytes \<Rightarrow> gobytes \<Rightarrow> 'w state
    \<Rightarrow> ((error + gobytes \<times> bool) \<times> 'w state) option" where
  "CompareAndSwap E c key previousValue newValue s =
     (if \<not> atomic c
      then Some (Inl (ErrNew ''using CompareAndSwap without enable atomic mode''), s)
      else if len newValue = 0 then Some (Inl (ErrNew ''empty value is not supported''), s)
      else
        (case sendReq E c key
                ((NewRequest CmdRawCompareAndSwap
                    (if previousValue = None then RawCASRequest key newValue True None
                     else RawCASRequest key newValue False previousValue))
                 \<lparr>MaxExecutionDurationMs := MaxWriteExecutionTime E\<rparr>)
                False s of
           None \<Rightarrow> None
         | Some (Inl err, s1) \<Rightarrow> Some (Inl err, s1)
         | Some (Inr (resp, loc), s1) \<Rightarrow>
             (case Resp resp of
                None \<Rightarrow> Some (Inl ErrBodyMissing, s1)
              | Some (RawCASResponse e succeed previousNotExist prev) \<Rightarrow>
                  (if e \<noteq> [] then Some (Inl (ErrNew e), s1)
                   else if previousNotExist then Some (Inr (None, succeed), s1)
                   else Some (Inr (prev, succeed), s1))
              | Some _ \<Rightarrow> Some (Inl (Panic ''interface conversion''), s1))))"

subsection \<open>Range deletes\<close>

partial_function (option) sendDeleteRangeReq_loop :: "'w env \<Rightarrow> Client \<Rightarrow> handle \<Rightarrow> bytes
    \<Rightarrow> bytes \<Rightarrow> 'w state \<Rightarrow> ((error + Response \<times> bytes) \<times> 'w state) option" where
  "sendDeleteRangeReq_loop E c bo startKey endKey s =
     (case call_LocateKey E c bo startKey s of
        (Inl err, s1) \<Rightarrow> Some (Inl err, s1)
      | (Inr loc, s1) \<Rightarrow>
          (let actualEndKey =
                 (if length (EndKey loc) > 0 \<and> bytes_Compare (EndKey loc) endKey < 0
                  then EndKey loc else endKey)
           in case call_SendReq E c bo
                     ((NewRequest CmdRawDeleteRange (RawDeleteRangeRequest startKey actualEndKey))
                      \<lparr>MaxExecutionDurationMs := MaxWriteExecutionTime E\<rparr>)
                     (Region loc) s1 of
                (Inl err, s2) \<Rightarrow> Some (Inl err, s2)
              | (Inr resp, s2) \<Rightarrow>
                  (case GetRegionError E resp of
                     Inl err \<Rightarrow> Some (Inl err, s2)
                   | Inr (Some regionErr) \<Rightarrow>
                       (case call_Backoff E bo BoRegionMiss (ErrNew regionErr) s2 of
                          (Some err, s3) \<Rightarrow> Some (Inl err, s3)
                        | (None, s3) \<Rightarrow> sendDeleteRangeReq_loop E c bo startKey endKey s3)
                   | Inr None \<Rightarrow> Some (Inr (resp, actualEndKey), s2))))"

definition sendDeleteRangeReq :: "'w env \<Rightarrow> Client \<Rightarrow> bytes \<Rightarrow> bytes \<Rightarrow> 'w state
    \<Rightarrow> ((error + Response \<times> bytes) \<times> 'w state) option" where
  "sendDeleteRangeReq E c startKey endKey s =
     (case call_NewBackofferWithVars E rawkvMaxBackoff s of
        (bo, s0) \<Rightarrow> sendDeleteRangeReq_loop E c bo startKey endKey s0)"

partial_function (option) DeleteRange :: "'w env \<Rightarrow> Client \<Rightarrow> bytes \<Rightarrow> bytes \<Rightarrow> 'w state
    \<Rightarrow> (error option \<times> 'w state) option" where
  "DeleteRange E c startKey endKey s =
     (if \<not> bytes_Equal startKey endKey
      then
        (case sendDeleteRangeReq E c startKey endKey s of
           None \<Rightarrow> None
         | Some (Inl err, s1) \<Rightarrow> Some (Some err, s1)
         | Some (Inr (resp, actualEndKey), s1) \<Rightarrow>
             (case Resp resp of
                None \<Rightarrow> Some (Some ErrBodyMissing, s1)
              | Some (RawDeleteRangeResponse e) \<Rightarrow>
                  (if e \<noteq> [] then Some (Some (ErrNew e), s1)
                   else DeleteRange E c actualEndKey endKey s1)
              | Some _ \<Rightarrow> Some (Some (Panic ''interface conversion''), s1)))
      else Some (None, s))"

text \<open>
  One task of the batched range delete. The log calls of this path are events of the
  trace.
\<close>

partial_function (option) doBatchDeleteRangeReq :: "'w env \<Rightarrow> Client \<Rightarrow> handle \<Rightarrow> KeyLocation
    \<Rightarrow> 'w state \<Rightarrow> (error option \<times> 'w state) option" where
  "doBatchDeleteRangeReq E c bo request s =
     (case call_SendReq E c bo
             ((NewRequest CmdRawDeleteRange
                 (RawDeleteRangeRequest (StartKey request) (EndKey request)))
              \<lparr>MaxExecutionDurationMs := MaxWriteExecutionTime E\<rparr>)
             (Region request) s of
        (Inl err, s1) \<Rightarrow> Some (Some err, log_Error ''snendReq err'' s1)
      | (Inr resp, s1) \<Rightarrow>
          (case GetRegionError E resp of
             Inl err \<Rightarrow> Some (Some err, log_Error ''getRegion err'' s1)
           | Inr (Some regionErr) \<Rightarrow>
               (case call_Backoff E bo BoRegionMiss (ErrNew regionErr) s1 of
                  (Some err, s2) \<Rightarrow> Some (Some err, log_Error ''backoff err'' s2)
                | (None, s2) \<Rightarrow> doBatchDeleteRangeReq E c bo request s2)
           | Inr None \<Rightarrow> Some (None, s1)))"

text \<open>
  The inner loop of \<open>BatchDeleteRange\<close>, \<open>for i = 0; i < batchSize; i++\<close>, with the
  number of iterations left as its counter. It returns the new \<open>tmpStartKey\<close> and
  \<open>keyLocations\<close>. The Go code assigns \<open>tmpStartKey\<close> before it builds the location it
  appends.
\<close>

fun BatchDeleteRange_collect :: "'w env \<Rightarrow> Client \<Rightarrow> handle \<Rightarrow> nat \<Rightarrow> bytes \<Rightarrow> bytes
    \<Rightarrow> KeyLocation list \<Rightarrow> 'w state \<Rightarrow> (error + bytes \<times> KeyLocation list) \<times> 'w state" where
  "BatchDeleteRange_collect E c bo 0 tmpStartKey tmpEndKey keyLocations s =
     (Inr (tmpStartKey, keyLocations), s)"
| "BatchDeleteRange_collect E c bo (Suc n) tmpStartKey tmpEndKey keyLocations s =
     (case call_LocateKey E c bo tmpStartKey s of
        (Inl err, s1) \<Rightarrow> (Inl err, s1)
      | (Inr loc, s1) \<Rightarrow>
          (if length (EndKey loc) > 0 \<and> bytes_Compare (EndKey loc) tmpEndKey < 0
           then
             (let tmpStartKey' = EndKey loc
              in BatchDeleteRange_collect E c bo n tmpStartKey' tmpEndKey
                   (keyLocations @
                    [\<lparr>Region = Region loc, StartKey = tmpStartKey', EndKey = EndKey loc\<rparr>]) s1)
           else
             (let tmpStartKey' = tmpEndKey
              in (Inr (tmpStartKey',
                       keyLocations @
                       [\<lparr>Region = Region loc, StartKey = tmpStartKey', EndKey = tmpEndKey\<rparr>]),
                  s1))))"

text \<open>
  The fan-out. The tasks are goroutines that send their result on a channel with room
  for all of them; the model runs them one after the other in the order of the list,
  each to its end (one of the schedules the Go program allows), and the collector reads
  their results afterwards. Each task forks the group's backoffer and cancels its fork
  when it ends.
\<close>

fun BatchDeleteRange_tasks :: "'w env \<Rightarrow> Client \<Rightarrow> handle \<Rightarrow> KeyLocation list \<Rightarrow> 'w state
    \<Rightarrow> (error option list \<times> 'w state) option" where
  "BatchDeleteRange_tasks E c bo [] s = Some ([], s)"
| "BatchDeleteRange_tasks E c bo (batch # rest) s =
     (case call_Fork E bo s of
        (singleBatchBackoffer, s1) \<Rightarrow>
          (case doBatchDeleteRangeReq E c singleBatchBackoffer batch s1 of
             None \<Rightarrow> None
           | Some (e, s2) \<Rightarrow>
               (case BatchDeleteRange_tasks E c bo rest (call_Cancel E singleBatchBackoffer s2) of
                  None \<Rightarrow> None
                | Some (es, s3) \<Rightarrow> Some (e # es, s3))))"

text \<open>The collector: \<open>cancel()\<close> on every error, the first error kept in \<open>err\<close>.\<close>

fun first_error_drain :: "'w env \<Rightarrow> handle \<Rightarrow> error option list \<Rightarrow> error option \<Rightarrow> 'w state
    \<Rightarrow> error option \<times> 'w state" where
  "first_error_drain E bo [] err s = (err, s)"
| "first_error_drain E bo (None # es) err s = first_error_drain E bo es err s"
| "first_error_drain E bo (Some e # es) err s =
     first_error_drain E bo es (if err = None then Some e else err) (call_Cancel E bo s)"

partial_function (option) BatchDeleteRange_loop :: "'w env \<Rightarrow> Client \<Rightarrow> handle \<Rightarrow> nat \<Rightarrow> bytes
    \<Rightarrow> bytes \<Rightarrow> KeyLocation list \<Rightarrow> error option \<Rightarrow> 'w state
    \<Rightarrow> (error option \<times> 'w state) option" where
  "BatchDeleteRange_loop E c bo batchSize tmpStartKey tmpEndKey keyLocations err s =
     (if \<not> bytes_Equal tmpStartKey tmpEndKey
      then
        (case BatchDeleteRange_collect E c bo batchSize tmpStartKey tmpEndKey keyLocations s of
           (Inl e, s1) \<Rightarrow> Some (Some e, s1)
         | (Inr (tmpStartKey', keyLocations'), s1) \<Rightarrow>
             (case call_Fork E bo s1 of
                (bo', s2) \<Rightarrow>
                  (case BatchDeleteRange_tasks E c bo' keyLocations' s2 of
                     None \<Rightarrow> None
                   | Some (es, s3) \<Rightarrow>
                       (case first_error_drain E bo' es err s3 of
                          (err', s4) \<Rightarrow>
                            BatchDeleteRange_loop E c bo batchSize tmpStartKey' tmpEndKey
                              keyLocations' err'
                              (if err' \<noteq> None
                               then log_Error ''doBatchDeleteRangeReq in channel err'' s4
                               else s4)))))
      else Some (None, s))"

text \<open>
  \<open>make([]locate.KeyLocation, batchSize)\<close> is a slice of \<open>batchSize\<close> zero locations,
  and panics when \<open>batchSize\<close> is negative.
\<close>

definition zero_KeyLocation :: KeyLocation where
  "zero_KeyLocation = \<lparr>Region = 0, StartKey = [], EndKey = []\<rparr>"

definition BatchDeleteRange :: "'w env \<Rightarrow> Client \<Rightarrow> bytes \<Rightarrow> bytes \<Rightarrow> int \<Rightarrow> 'w state
    \<Rightarrow> (error option \<times> 'w state) option" where
  "BatchDeleteRange E c startKey endKey batchSize s =
     (case call_NewBackofferWithVars E rawkvMaxBackoff s of
        (bo, s0) \<Rightarrow>
          (if batchSize < 0 then Some (Some (Panic ''makeslice: len out of range''), s0)
           else BatchDeleteRange_loop E c bo (nat batchSize) startKey endKey
                  (replicate (nat batchSize) zero_KeyLocation) None s0))"

subsection \<open>Batched reads and deletes\<close>

text \<open>
  The result of one task. The re-planning of a task on a region error calls
  \<open>sendBatchReq\<close> again, which runs tasks of its own: the three functions are defined
  together, with a bound on the depth of that recursion as their first argument
  (\<open>None\<close> when the bound is reached). The tasks run one after the other, as above.
  A panic in a task is carried as the task's error.
\<close>

record BatchResult =
  Response :: "Response option"
  Error :: "error option"

text \<open>
  The collector of \<open>sendBatchReq\<close>: it cancels the group on every error, keeps the
  first one, and for a batch get appends the pairs of every other result to \<open>resp\<close>.
\<close>

fun sendBatchReq_collect :: "'w env \<Rightarrow> handle \<Rightarrow> CmdType \<Rightarrow> BatchResult list
    \<Rightarrow> Response option \<Rightarrow> error option \<Rightarrow> 'w state
    \<Rightarrow> (Response option \<times> error option) \<times> 'w state" where
  "sendBatchReq_collect E bo cmdType [] resp firstError s = ((resp, firstError), s)"
| "sendBatchReq_collect E bo cmdType (singleResp # rest) resp firstError s =
     (case Error singleResp of
        Some e \<Rightarrow>
          sendBatchReq_collect E bo cmdType rest resp
            (if firstError = None then Some e else firstError) (call_Cancel E bo s)
      | None \<Rightarrow>
          (if cmdType = CmdRawBatchGet
           then
             (case Response singleResp of
                None \<Rightarrow> ((None, Some (Panic ''nil pointer dereference'')), s)
              | Some r \<Rightarrow>
                  (case Resp r of
                     Some (RawBatchGetResponse pairs) \<Rightarrow>
                       (case resp of
                          None \<Rightarrow> ((None, Some (Panic ''nil pointer dereference'')), s)
                        | Some acc \<Rightarrow>
                            (case Resp acc of
                               Some (RawBatchGetResponse accPairs) \<Rightarrow>
                                 sendBatchReq_collect E bo cmdType rest
                                   (Some (acc\<lparr>Resp :=
                                            Some (RawBatchGetResponse (accPairs @ pairs))\<rparr>))
                                   firstError s
                             | _ \<Rightarrow> ((None, Some (Panic ''interface conversion'')), s)))
                   | _ \<Rightarrow> ((None, Some (Panic ''interface conversion'')), s)))
           else sendBatchReq_collect E bo cmdType rest resp firstError s))"

fun sendBatchReq :: "nat \<Rightarrow> 'w env \<Rightarrow> Client \<Rightarrow> handle \<Rightarrow> bytes list \<Rightarrow> CmdType \<Rightarrow> 'w state
    \<Rightarrow> ((Response option \<times> error option) \<times> 'w state) option"
and doBatchReq :: "nat \<Rightarrow> 'w env \<Rightarrow> Client \<Rightarrow> handle \<Rightarrow> Batch \<Rightarrow> CmdType \<Rightarrow> 'w state
    \<Rightarrow> (BatchResult \<times> 'w state) option"
and sendBatchReq_tasks :: "nat \<Rightarrow> 'w env \<Rightarrow> Client \<Rightarrow> handle \<Rightarrow> Batch list \<Rightarrow> CmdType
    \<Rightarrow> 'w state \<Rightarrow> (BatchResult list \<times> 'w state) option" where
  "sendBatchReq 0 E c bo keys cmdType s = None"
| "sendBatchReq (Suc n) E c bo keys cmdType s =
     (case call_GroupKeysByRegion E c bo keys s of
        (Inl err, s1) \<Rightarrow> Some ((None, Some err), s1)
      | (Inr groups, s1) \<Rightarrow>
          (case call_Fork E bo s1 of
             (bo', s2) \<Rightarrow>
               (case sendBatchReq_tasks n E c bo'
                       (foldl (\<lambda>batches (regionID, groupKeys).
                                 AppendKeyBatches E batches regionID groupKeys rawBatchPairCount)
                          [] groups)
                       cmdType s2 of
                  None \<Rightarrow> None
                | Some (results, s3) \<Rightarrow>
                    Some (sendBatchReq_collect E bo' cmdType results
                            (case cmdType of
                               CmdRawBatchGet \<Rightarrow>
                                 Some \<lparr>Resp = Some (RawBatchGetResponse []), RegionErr = None\<rparr>
                             | CmdRawBatchDelete \<Rightarrow>
                                 Some \<lparr>Resp = Some (RawBatchDeleteResponse []), RegionErr = None\<rparr>
                             | _ \<Rightarrow> None)
                            None s3))))"
| "doBatchReq n E c bo batch cmdType s =
     (case (case cmdType of
              CmdRawBatchGet \<Rightarrow> Some (NewRequest cmdType (RawBatchGetRequest (Keys batch)))
            | CmdRawBatchDelete \<Rightarrow>
                Some (NewRequest cmdType (RawBatchDeleteRequest (Keys batch) (atomic c)))
            | _ \<Rightarrow> None) of
        None \<Rightarrow> Some (\<lparr>Response = None, Error = Some (Panic ''nil pointer dereference'')\<rparr>, s)
      | Some req \<Rightarrow>
          (case call_SendReq E c bo (req\<lparr>MaxExecutionDurationMs := MaxWriteExecutionTime E\<rparr>)
                  (RegionID batch) s of
             (Inl err, s1) \<Rightarrow> Some (\<lparr>Response = None, Error = Some err\<rparr>, s1)
           | (Inr resp, s1) \<Rightarrow>
               (case GetRegionError E resp of
                  Inl err \<Rightarrow> Some (\<lparr>Response = None, Error = Some err\<rparr>, s1)
                | Inr (Some regionErr) \<Rightarrow>
                    (case call_Backoff E bo BoRegionMiss (ErrNew regionErr) s1 of
                       (Some err, s2) \<Rightarrow> Some (\<lparr>Response = None, Error = Some err\<rparr>, s2)
                     | (None, s2) \<Rightarrow>
                         (case sendBatchReq n E c bo (Keys batch) cmdType s2 of
                            None \<Rightarrow> None
                          | Some ((resp', err'), s3) \<Rightarrow>
                              Some (\<lparr>Response = resp', Error = err'\<rparr>, s3)))
                | Inr None \<Rightarrow>
                    (case cmdType of
                       CmdRawBatchGet \<Rightarrow> Some (\<lparr>Response = Some resp, Error = None\<rparr>, s1)
                     | CmdRawBatchDelete \<Rightarrow>
                         (case Resp resp of
                            None \<Rightarrow> Some (\<lparr>Response = None, Error = Some ErrBodyMissing\<rparr>, s1)
                          | Some (RawBatchDeleteResponse e) \<Rightarrow>
                              (if e \<noteq> []
                               then Some (\<lparr>Response = None, Error = Some (ErrNew e)\<rparr>, s1)
                               else Some (\<lparr>Response = Some resp, Error = None\<rparr>, s1))
                          | Some _ \<Rightarrow>
                              Some (\<lparr>Response = None,
                                      Error = Some (Panic ''interface conversion'')\<rparr>, s1))
                     | _ \<Rightarrow> Some (\<lparr>Response = None, Error = None\<rparr>, s1)))))"
| "sendBatchReq_tasks n E c bo [] cmdType s = Some ([], s)"
| "sendBatchReq_tasks n E c bo (batch # rest) cmdType s =
     (case call_Fork E bo s of
        (singleBatchBackoffer, s1) \<Rightarrow>
          (case doBatchReq n E c singleBatchBackoffer batch cmdType s1 of
             None \<Rightarrow> None
           | Some (r, s2) \<Rightarrow>
               (case sendBatchReq_tasks n E c bo rest cmdType
                       (call_Cancel E singleBatchBackoffer s2) of
                  None \<Rightarrow> None
                | Some (rs, s3) \<Rightarrow> Some (r # rs, s3))))"

text \<open>
  \<open>BatchGet\<close>: the map from key to value is filled from the pairs in their order, and
  \<open>values\<close>, made with one nil entry for each key, is assigned index by index. A key
  missing from a Go map reads as nil.
\<close>

definition BatchGet_keyToValue :: "KvPair list \<Rightarrow> (bytes \<rightharpoonup> gobytes)" where
  "BatchGet_keyToValue pairs = foldl (\<lambda>m pair. m(Key pair \<mapsto> Val pair)) Map.empty pairs"

definition BatchGet_values :: "(bytes \<rightharpoonup> gobytes) \<Rightarrow> bytes list \<Rightarrow> gobytes list" where
  "BatchGet_values keyToValue keys =
     foldl (\<lambda>vals i. vals[i := (case keyToValue (keys ! i) of None \<Rightarrow> None | Some v \<Rightarrow> v)])
       (replicate (length keys) None) [0..<length keys]"

definition BatchGet :: "nat \<Rightarrow> 'w env \<Rightarrow> Client \<Rightarrow> bytes list \<Rightarrow> 'w state
    \<Rightarrow> ((error + gobytes list) \<times> 'w state) option" where
  "BatchGet depth E c keys s =
     (case call_NewBackofferWithVars E rawkvMaxBackoff s of
        (bo, s0) \<Rightarrow>
          (case sendBatchReq depth E c bo keys CmdRawBatchGet s0 of
             None \<Rightarrow> None
           | Some ((resp, Some err), s1) \<Rightarrow> Some (Inl err, s1)
           | Some ((None, None), s1) \<Rightarrow> Some (Inl (Panic ''nil pointer dereference''), s1)
           | Some ((Some resp, None), s1) \<Rightarrow>
               (case Resp resp of
                  None \<Rightarrow> Some (Inl ErrBodyMissing, s1)
                | Some (RawBatchGetResponse pairs) \<Rightarrow>
                    Some (Inr (BatchGet_values (BatchGet_keyToValue pairs) keys), s1)
                | Some _ \<Rightarrow> Some (Inl (Panic ''interface conversion''), s1))))"

subsection \<open>Batched writes\<close>

text \<open>
  The two maps of \<open>sendBatchPut\<close>, filled by the loop over \<open>keys\<close> with its index
  \<open>i\<close>; \<open>None\<close> is the panic of an index out of range. \<open>doBatchPut\<close> builds its
  pairs the same way.
\<close>

fun sendBatchPut_maps :: "bytes list \<Rightarrow> nat \<Rightarrow> gobytes list \<Rightarrow> 64 word list
    \<Rightarrow> (bytes \<rightharpoonup> gobytes) \<Rightarrow> (bytes \<rightharpoonup> 64 word)
    \<Rightarrow> ((bytes \<rightharpoonup> gobytes) \<times> (bytes \<rightharpoonup> 64 word)) option" where
  "sendBatchPut_maps [] i vals ttls keyToValue keyTottl = Some (keyToValue, keyTottl)"
| "sendBatchPut_maps (key # rest) i vals ttls keyToValue keyTottl =
     (if i < length vals
      then
        (if length ttls > 0
         then
           (if i < length ttls
            then sendBatchPut_maps rest (Suc i) vals ttls
                   (keyToValue(key \<mapsto> vals ! i)) (keyTottl(key \<mapsto> ttls ! i))
            else None)
         else sendBatchPut_maps rest (Suc i) vals ttls (keyToValue(key \<mapsto> vals ! i)) keyTottl)
      else None)"

fun doBatchPut_pairs :: "bytes list \<Rightarrow> nat \<Rightarrow> gobytes list \<Rightarrow> KvPair list
    \<Rightarrow> KvPair list option" where
  "doBatchPut_pairs [] i vals kvPair = Some kvPair"
| "doBatchPut_pairs (key # rest) i vals kvPair =
     (if i < length vals
      then doBatchPut_pairs rest (Suc i) vals (kvPair @ [\<lparr>Key = key, Val = vals ! i\<rparr>])
      else None)"

fun sendBatchPut :: "nat \<Rightarrow> 'w env \<Rightarrow> Client \<Rightarrow> handle \<Rightarrow> bytes list \<Rightarrow> gobytes list
    \<Rightarrow> 64 word list \<Rightarrow> 'w state \<Rightarrow> (error option \<times> 'w state) option"
and doBatchPut :: "nat \<Rightarrow> 'w env \<Rightarrow> Client \<Rightarrow> handle \<Rightarrow> Batch \<Rightarrow> 'w state
    \<Rightarrow> (error option \<times> 'w state) option"
and sendBatchPut_tasks :: "nat \<Rightarrow> 'w env \<Rightarrow> Client \<Rightarrow> handle \<Rightarrow> Batch list \<Rightarrow> 'w state
    \<Rightarrow> (error option list \<times> 'w state) option" where
  "sendBatchPut 0 E c bo keys vals ttls s = None"
| "sendBatchPut (Suc n) E c bo keys vals ttls s =
     (case sendBatchPut_maps keys 0 vals ttls Map.empty Map.empty of
        None \<Rightarrow> Some (Some (Panic ''index out of range''), s)
      | Some (keyToValue, keyTottl) \<Rightarrow>
          (case call_GroupKeysByRegion E c bo keys s of
             (Inl err, s1) \<Rightarrow> Some (Some err, s1)
           | (Inr groups, s1) \<Rightarrow>
               (case call_Fork E bo s1 of
                  (bo', s2) \<Rightarrow>
                    (case sendBatchPut_tasks n E c bo'
                            (foldl (\<lambda>batches (regionID, groupKeys).
                                      AppendBatches E batches regionID groupKeys keyToValue
                                        keyTottl rawBatchPutSize)
                               [] groups)
                            s2 of
                       None \<Rightarrow> None
                     | Some (es, s3) \<Rightarrow> Some (first_error_drain E bo' es None s3)))))"
| "doBatchPut n E c bo batch s =
     (case doBatchPut_pairs (Keys batch) 0 (Values batch) [] of
        None \<Rightarrow> Some (Some (Panic ''index out of range''), s)
      | Some kvPair \<Rightarrow>
          (case call_SendReq E c bo
                  ((NewRequest CmdRawBatchPut
                      (RawBatchPutRequest kvPair (atomic c) (TTLs batch)))
                   \<lparr>MaxExecutionDurationMs := MaxWriteExecutionTime E\<rparr>)
                  (RegionID batch) s of
             (Inl err, s1) \<Rightarrow> Some (Some err, s1)
           | (Inr resp, s1) \<Rightarrow>
               (case GetRegionError E resp of
                  Inl err \<Rightarrow> Some (Some err, s1)
                | Inr (Some regionErr) \<Rightarrow>
                    (case call_Backoff E bo BoRegionMiss (ErrNew regionErr) s1 of
                       (Some err, s2) \<Rightarrow> Some (Some err, s2)
                     | (None, s2) \<Rightarrow>
                         sendBatchPut n E c bo (Keys batch) (Values batch) (TTLs batch) s2)
                | Inr None \<Rightarrow>
                    (case Resp resp of
                       None \<Rightarrow> Some (Some ErrBodyMissing, s1)
                     | Some (RawBatchPutResponse e) \<Rightarrow>
                         (if e \<noteq> [] then Some (Some (ErrNew e), s1) else Some (None, s1))
                     | Some _ \<Rightarrow> Some (Some (Panic ''interface conversion''), s1)))))"
| "sendBatchPut_tasks n E c bo [] s = Some ([], s)"
| "sendBatchPut_tasks n E c bo (batch # rest) s =
     (case call_Fork E bo s of
        (singleBatchBackoffer, s1) \<Rightarrow>
          (case doBatchPut n E c singleBatchBackoffer batch s1 of
             None \<Rightarrow> None
           | Some (e, s2) \<Rightarrow>
               (case sendBatchPut_tasks n E c bo rest (call_Cancel E singleBatchBackoffer s2) of
                  None \<Rightarrow> None
                | Some (es, s3) \<Rightarrow> Some (e # es, s3))))"

definition BatchPut :: "nat \<Rightarrow> 'w env \<Rightarrow> Client \<Rightarrow> bytes list \<Rightarrow> gobytes list \<Rightarrow> 64 word list
    \<Rightarrow> 'w state \<Rightarrow> (error option \<times> 'w state) option" where
  "BatchPut depth E c keys vals ttls s =
     (if length keys \<noteq> length vals
      then Some (Some (ErrNew ''the len of keys is not equal to the len of values''), s)
      else if length ttls > 0 \<and> length keys \<noteq> length ttls
      then Some (Some (ErrNew ''the len of ttls is not equal to the len of values''), s)
      else if list_ex (\<lambda>val. len val = 0) vals
      then Some (Some (ErrNew ''empty value is not supported''), s)
      else
        (case call_NewBackofferWithVars E rawkvMaxBackoff s of
           (bo, s0) \<Rightarrow> sendBatchPut depth E c bo keys vals ttls s0))"

declare sendReq_loop.simps [code]
declare Scan_loop.simps [code]
declare ReverseScan_loop.simps [code]
declare sendDeleteRangeReq_loop.simps [code]
declare DeleteRange.simps [code]
declare doBatchDeleteRangeReq.simps [code]
declare BatchDeleteRange_loop.simps [code]

subsection \<open>Reading a trace\<close>

text \<open>
  The error a call returned, if it returned one; and the error of \<open>GetRegionError\<close> on
  the response of a send that succeeded.
\<close>

definition call_error :: "event \<Rightarrow> error option" where
  "call_error ev =
     (case ev of
        EvBackoff bo cfg cause r \<Rightarrow> r
      | EvLocateKey bo k r \<Rightarrow> (case r of Inl e \<Rightarrow> Some e | Inr loc \<Rightarrow> None)
      | EvLocateEndKey bo k r \<Rightarrow> (case r of Inl e \<Rightarrow> Some e | Inr loc \<Rightarrow> None)
      | EvGroupKeysByRegion bo ks r \<Rightarrow> (case r of Inl e \<Rightarrow> Some e | Inr groups \<Rightarrow> None)
      | EvSendReq bo req region r \<Rightarrow> (case r of Inl e \<Rightarrow> Some e | Inr resp \<Rightarrow> None)
      | EvCloseRPC h r \<Rightarrow> r
      | _ \<Rightarrow> None)"

definition extraction_error :: "'w env \<Rightarrow> event \<Rightarrow> error option" where
  "extraction_error E ev =
     (case ev of
        EvSendReq bo req region (Inr resp) \<Rightarrow>
          (case GetRegionError E resp of Inl e \<Rightarrow> Some e | Inr re \<Rightarrow> None)
      | _ \<Rightarrow> None)"

text \<open>The backoffs charged, and the region errors of the responses received, in order.\<close>

definition backoff_charges :: "event list \<Rightarrow> (string \<times> error) list" where
  "backoff_charges tr =
     concat (map (\<lambda>ev. case ev of EvBackoff bo cfg cause r \<Rightarrow> [(cfg, cause)] | _ \<Rightarrow> []) tr)"

definition region_errors :: "'w env \<Rightarrow> event list \<Rightarrow> RegionError list" where
  "region_errors E tr =
     concat (map (\<lambda>ev. case ev of
                     EvSendReq bo req region (Inr resp) \<Rightarrow>
                       (case GetRegionError E resp of Inr (Some re) \<Rightarrow> [re] | _ \<Rightarrow> [])
                   | _ \<Rightarrow> []) tr)"

text \<open>A location lookup of \<open>key\<close> as \<open>sendReq\<close> makes it; a backoff that let the caller go on.\<close>

definition is_lookup :: "bool \<Rightarrow> bytes \<Rightarrow> event \<Rightarrow> bool" where
  "is_lookup reverse key ev =
     (case ev of
        EvLocateKey bo k r \<Rightarrow> \<not> reverse \<and> k = key
      | EvLocateEndKey bo k r \<Rightarrow> reverse \<and> k = key
      | _ \<Rightarrow> False)"

definition is_granted :: "event \<Rightarrow> bool" where
  "is_granted ev = (case ev of EvBackoff bo cfg cause None \<Rightarrow> True | _ \<Rightarrow> False)"

text \<open>The requests sent, each with the region it was sent to.\<close>

definition sent :: "event list \<Rightarrow> (Request \<times> RegionVerID) list" where
  "sent tr =
     concat (map (\<lambda>ev. case ev of EvSendReq bo req region r \<Rightarrow> [(req, region)] | _ \<Rightarrow> []) tr)"

text \<open>
  The sends that were answered without a region error, each with its request, its region
  and its response; and the pairs of the scan responses among them, in order.
\<close>

definition delivered :: "'w env \<Rightarrow> event list \<Rightarrow> (Request \<times> RegionVerID \<times> Response) list" where
  "delivered E tr =
     concat (map (\<lambda>ev. case ev of
                     EvSendReq bo req region (Inr resp) \<Rightarrow>
                       (case GetRegionError E resp of
                          Inr None \<Rightarrow> [(req, region, resp)]
                        | _ \<Rightarrow> [])
                   | _ \<Rightarrow> []) tr)"

definition scanned :: "'w env \<Rightarrow> event list \<Rightarrow> KvPair list" where
  "scanned E tr =
     concat (map (\<lambda>(req, region, resp).
                    case Resp resp of Some (RawScanResponse kvs) \<Rightarrow> kvs | _ \<Rightarrow> [])
               (delivered E tr))"

text \<open>
  A request of a forward scan up to \<open>endKey\<close> that asks for at least one pair and at
  most \<open>limit\<close> pairs.
\<close>

definition forward_scan_request :: "bytes \<Rightarrow> int \<Rightarrow> Request \<Rightarrow> bool" where
  "forward_scan_request endKey limit req =
     (Type req = CmdRawScan \<and>
      (case Req req of
         RawScanRequest a b lim reverse \<Rightarrow>
           b = endKey \<and> \<not> reverse \<and> 0 < uint lim \<and> uint lim \<le> limit
       | _ \<Rightarrow> False))"

text \<open>
  What a run of \<open>sendReq\<close> for \<open>key\<close> that returned \<open>r\<close> has added to the trace, after
  the event of its new backoffer: a response is returned only when it carries no region
  error; an error returned is the error of the last call (a lookup, a send or a backoff)
  or of \<open>GetRegionError\<close> on the last response; the backoffs charged are one for each
  region error received, in order, each with the configuration \<open>BoRegionMiss\<close> and the
  region error as its cause; the lookups of \<open>key\<close> are one more than the backoffs
  that were granted; and every event is a call of the dispatcher's own (\<open>dispatch_event\<close>):
  a lookup of \<open>key\<close> in the direction asked for, a send, or a backoff with the
  configuration \<open>BoRegionMiss\<close>.
\<close>

definition dispatch_event :: "bool \<Rightarrow> bytes \<Rightarrow> event \<Rightarrow> bool" where
  "dispatch_event reverse key ev =
     (case ev of
        EvLocateKey bo k r \<Rightarrow> \<not> reverse \<and> k = key
      | EvLocateEndKey bo k r \<Rightarrow> reverse \<and> k = key
      | EvSendReq bo req region r \<Rightarrow> True
      | EvBackoff bo cfg cause r \<Rightarrow> cfg = BoRegionMiss
      | _ \<Rightarrow> False)"

definition sendReq_post :: "'w env \<Rightarrow> bool \<Rightarrow> bytes \<Rightarrow> error + Response \<times> KeyLocation
    \<Rightarrow> event list \<Rightarrow> bool" where
  "sendReq_post E reverse key r tr =
     (tr \<noteq> [] \<and>
      (case r of
         Inr (resp, loc) \<Rightarrow> GetRegionError E resp = Inr None
       | Inl e \<Rightarrow> call_error (last tr) = Some e \<or> extraction_error E (last tr) = Some e) \<and>
      backoff_charges tr = map (\<lambda>re. (BoRegionMiss, ErrNew re)) (region_errors E tr) \<and>
      length (filter (is_lookup reverse key) tr) = Suc (length (filter is_granted tr)) \<and>
      list_all (dispatch_event reverse key) tr)"

text \<open>
  The ranges of the delete-range requests that were answered without a region error, in
  order; and what it is for a list of ranges to cover \<open>[a, b)\<close> piece by piece, each
  piece starting where the one before ended and none going beyond \<open>b\<close>.
\<close>

definition delete_ranges :: "'w env \<Rightarrow> event list \<Rightarrow> (bytes \<times> bytes) list" where
  "delete_ranges E tr =
     concat (map (\<lambda>(req, region, resp).
                    case Req req of RawDeleteRangeRequest a b \<Rightarrow> [(a, b)] | _ \<Rightarrow> [])
               (delivered E tr))"

fun tiles :: "bytes \<Rightarrow> bytes \<Rightarrow> (bytes \<times> bytes) list \<Rightarrow> bool" where
  "tiles a b [] = (a = b)"
| "tiles a b ((x, y) # rs) = (x = a \<and> y \<le> b \<and> tiles y b rs)"

text \<open>
  The end of the range that one step of the sequential range delete submits: the end key
  of the located region or \<open>endKey\<close>, whichever is smaller, and \<open>endKey\<close> when the
  region has no end key.
\<close>

definition actual_end :: "KeyLocation \<Rightarrow> bytes \<Rightarrow> bytes" where
  "actual_end loc endKey = (if EndKey loc = [] then endKey else min (EndKey loc) endKey)"

definition delete_range_request :: "'w env \<Rightarrow> bytes \<Rightarrow> bytes \<Rightarrow> Request" where
  "delete_range_request E a b =
     (NewRequest CmdRawDeleteRange (RawDeleteRangeRequest a b))
     \<lparr>MaxExecutionDurationMs := MaxWriteExecutionTime E\<rparr>"

text \<open>
  What a run of \<open>sendDeleteRangeReq\<close> from \<open>startKey\<close> that returned \<open>r\<close> has added to
  the trace, after the event of its new backoffer: one backoff \<open>BoRegionMiss\<close> for each
  region error received; one more lookup of \<open>startKey\<close> than backoffs granted; only
  delete-range requests that start at \<open>startKey\<close>; and, when it returned a response, as
  its last two events the lookup that located a region and the send, to that region, of
  the request for \<open>[startKey, actual_end)\<close> that this response answered without a region
  error, no earlier send having been answered so.
\<close>

definition delete_step_post :: "'w env \<Rightarrow> handle \<Rightarrow> bytes \<Rightarrow> bytes \<Rightarrow> error + Response \<times> bytes
    \<Rightarrow> event list \<Rightarrow> bool" where
  "delete_step_post E bo startKey endKey r tr =
     (backoff_charges tr = map (\<lambda>re. (BoRegionMiss, ErrNew re)) (region_errors E tr) \<and>
      length (filter (is_lookup False startKey) tr) = Suc (length (filter is_granted tr)) \<and>
      list_all (\<lambda>x. \<exists>b. fst x = delete_range_request E startKey b) (sent tr) \<and>
      (case r of
         Inl e \<Rightarrow> delivered E tr = []
       | Inr (resp, actualEndKey) \<Rightarrow>
           (\<exists>loc pre.
              tr = pre @ [EvLocateKey bo startKey (Inr loc),
                          EvSendReq bo (delete_range_request E startKey actualEndKey)
                            (Region loc) (Inr resp)] \<and>
              actualEndKey = actual_end loc endKey \<and>
              delivered E pre = [] \<and>
              GetRegionError E resp = Inr None)))"

text \<open>
  The errors the client makes itself for a bad argument: an empty value, lists of
  different lengths, a compare-and-swap outside the atomic mode, a scan limit above the
  maximum.
\<close>

definition argument_error :: "error \<Rightarrow> bool" where
  "argument_error e =
     (e = ErrNew ''empty value is not supported'' \<or>
      e = ErrNew ''the len of keys is not equal to the len of values'' \<or>
      e = ErrNew ''the len of ttls is not equal to the len of values'' \<or>
      e = ErrNew ''using CompareAndSwap without enable atomic mode'' \<or>
      e = ErrMaxScanLimitExceeded)"

text \<open>
  The value of the last pair of a list that has the key \<open>k\<close>, nil when no pair has it;
  the pairs of the batch-get responses that were answered without a region error, in
  order; and the pairs that the result of one task carries, if it carries a batch-get
  response.
\<close>

definition last_value :: "KvPair list \<Rightarrow> bytes \<Rightarrow> gobytes" where
  "last_value pairs k =
     (case filter (\<lambda>p. Key p = k) pairs of [] \<Rightarrow> None | q # qs \<Rightarrow> Val (last (q # qs)))"

definition batch_get_pairs :: "'w env \<Rightarrow> event list \<Rightarrow> KvPair list" where
  "batch_get_pairs E tr =
     concat (map (\<lambda>(req, region, resp).
                    case Resp resp of Some (RawBatchGetResponse ps) \<Rightarrow> ps | _ \<Rightarrow> [])
               (delivered E tr))"

definition result_pairs :: "BatchResult \<Rightarrow> KvPair list option" where
  "result_pairs br =
     (case Response br of
        None \<Rightarrow> None
      | Some r \<Rightarrow> (case Resp r of Some (RawBatchGetResponse ps) \<Rightarrow> Some ps | _ \<Rightarrow> None))"

subsection \<open>An example cluster\<close>

text \<open>
  Two regions split at the key \<open>m\<close>. The world holds the responses the transport will
  give, in order, and the number of backoffs the retry budget still allows.
\<close>

record cluster =
  responses :: "(error + Response) list"
  budget :: nat

definition region1 :: KeyLocation where
  "region1 = \<lparr>Region = 1, StartKey = [], EndKey = ''m''\<rparr>"

definition region2 :: KeyLocation where
  "region2 = \<lparr>Region = 2, StartKey = ''m'', EndKey = []\<rparr>"

definition example_env :: "cluster env" where
  "example_env =
     \<lparr>NewBackofferWithVars = (\<lambda>n w. (0, w)),
      Fork = (\<lambda>bo w. (Suc bo, w)),
      Cancel = (\<lambda>bo w. w),
      Backoff = (\<lambda>bo cfg cause w.
        if budget w = 0 then (Some (ErrNew ''backoff budget exhausted''), w)
        else (None, w\<lparr>budget := budget w - 1\<rparr>)),
      LocateKey = (\<lambda>rc bo k w. (Inr (if k < ''m'' then region1 else region2), w)),
      LocateEndKey = (\<lambda>rc bo k w. (Inr (if k \<le> ''m'' then region1 else region2), w)),
      GroupKeysByRegion = (\<lambda>rc bo ks w.
        (Inr (filter (\<lambda>(region, g). g \<noteq> [])
                [(1, filter (\<lambda>k. k < ''m'') ks), (2, filter (\<lambda>k. \<not> k < ''m'') ks)]), w)),
      SendReq = (\<lambda>rc rpc bo req region w.
        case responses w of
          [] \<Rightarrow> (Inl (ErrNew ''connection closed''), w)
        | r # rs \<Rightarrow> (r, w\<lparr>responses := rs\<rparr>)),
      GetRegionError = (\<lambda>resp.
        case Resp resp of None \<Rightarrow> Inl ErrBodyMissing | Some b \<Rightarrow> Inr (RegionErr resp)),
      AppendKeyBatches = (\<lambda>batches region ks n.
        batches @ [\<lparr>RegionID = region, Keys = ks, Values = [], TTLs = []\<rparr>]),
      AppendBatches = (\<lambda>batches region ks keyToValue keyTottl n.
        batches @
        [\<lparr>RegionID = region, Keys = ks,
          Values = map (\<lambda>k. case keyToValue k of None \<Rightarrow> None | Some v \<Rightarrow> v) ks,
          TTLs = map (\<lambda>k. case keyTottl k of None \<Rightarrow> 0 | Some t \<Rightarrow> t) ks\<rparr>]),
      MaxWriteExecutionTime = 20000,
      pd_Close = (\<lambda>h w. w),
      cache_Close = (\<lambda>h w. w),
      rpc_Close = (\<lambda>h w. (None, w))\<rparr>"

definition example_client :: Client where
  "example_client =
     \<lparr>clusterID = 1, regionCache = Some 1, pdClient = Some 2, rpcClient = Some 3,
      atomic = False\<rparr>"

definition ok_response :: "RespBody \<Rightarrow> error + Response" where
  "ok_response b = Inr \<lparr>Resp = Some b, RegionErr = None\<rparr>"

definition stale_response :: "RespBody \<Rightarrow> error + Response" where
  "stale_response b = Inr \<lparr>Resp = Some b, RegionErr = Some ''epoch not match''\<rparr>"

definition cluster_with :: "(error + Response) list \<Rightarrow> cluster state" where
  "cluster_with rs = \<lparr>world = \<lparr>responses = rs, budget = 3\<rparr>, trace = []\<rparr>"

text \<open>A scan that meets one pair in each region.\<close>

definition two_scans :: "cluster state" where
  "two_scans =
     cluster_with [ok_response (RawScanResponse [\<lparr>Key = ''a'', Val = Some ''1''\<rparr>]),
                   ok_response (RawScanResponse [\<lparr>Key = ''n'', Val = Some ''2''\<rparr>])]"

text \<open>A range delete whose first request meets a region error.\<close>

definition two_deletes :: "cluster state" where
  "two_deletes =
     cluster_with [stale_response (RawDeleteRangeResponse []),
                   ok_response (RawDeleteRangeResponse []),
                   ok_response (RawDeleteRangeResponse [])]"

text \<open>A batch get answered by one response from each region.\<close>

definition one_batch_get :: "cluster state" where
  "one_batch_get =
     cluster_with [ok_response (RawBatchGetResponse [\<lparr>Key = ''a'', Val = Some ''1''\<rparr>]),
                   ok_response (RawBatchGetResponse [\<lparr>Key = ''z'', Val = Some ''3''\<rparr>,
                                                      \<lparr>Key = ''n'', Val = Some ''2''\<rparr>])]"

section \<open>Properties\<close>

subsection \<open>The single-key dispatcher\<close>

lemma sendReq_post_lookup_failed:
  "is_lookup reverse key ev \<Longrightarrow> call_error ev = Some e \<Longrightarrow>
   sendReq_post E reverse key (Inl e) [ev]"
  by (auto simp: sendReq_post_def backoff_charges_def region_errors_def is_lookup_def
      is_granted_def dispatch_event_def split: event.splits)

lemma sendReq_post_send_failed:
  "is_lookup reverse key ev \<Longrightarrow>
   sendReq_post E reverse key (Inl e) [ev, EvSendReq bo req region (Inl e)]"
  by (auto simp: sendReq_post_def backoff_charges_def region_errors_def is_lookup_def
      is_granted_def dispatch_event_def call_error_def split: event.splits)

lemma sendReq_post_extraction_failed:
  "is_lookup reverse key ev \<Longrightarrow> GetRegionError E resp = Inl e \<Longrightarrow>
   sendReq_post E reverse key (Inl e) [ev, EvSendReq bo req region (Inr resp)]"
  by (auto simp: sendReq_post_def backoff_charges_def region_errors_def is_lookup_def
      is_granted_def dispatch_event_def extraction_error_def split: event.splits)

lemma sendReq_post_backoff_failed:
  "is_lookup reverse key ev \<Longrightarrow> GetRegionError E resp = Inr (Some re) \<Longrightarrow>
   sendReq_post E reverse key (Inl e)
     [ev, EvSendReq bo req region (Inr resp), EvBackoff bo BoRegionMiss (ErrNew re) (Some e)]"
  by (auto simp: sendReq_post_def backoff_charges_def region_errors_def is_lookup_def
      is_granted_def dispatch_event_def call_error_def split: event.splits)

lemma sendReq_post_success:
  "is_lookup reverse key ev \<Longrightarrow> GetRegionError E resp = Inr None \<Longrightarrow>
   sendReq_post E reverse key (Inr (resp, loc)) [ev, EvSendReq bo req region (Inr resp)]"
  by (auto simp: sendReq_post_def backoff_charges_def region_errors_def is_lookup_def
      is_granted_def dispatch_event_def split: event.splits)

lemma sendReq_post_retry:
  "is_lookup reverse key ev \<Longrightarrow> GetRegionError E resp = Inr (Some re) \<Longrightarrow>
   sendReq_post E reverse key r tr \<Longrightarrow>
   sendReq_post E reverse key r
     (ev # EvSendReq bo req region (Inr resp) # EvBackoff bo BoRegionMiss (ErrNew re) None # tr)"
  by (cases r)
    (auto simp: sendReq_post_def backoff_charges_def region_errors_def is_lookup_def
       is_granted_def dispatch_event_def split: event.splits)

lemma sendReq_loop_trace:
  "sendReq_loop E c bo key req reverse s = Some y \<Longrightarrow>
     \<exists>tr. trace (snd y) = trace s @ tr \<and> sendReq_post E reverse key (fst y) tr"
proof (induct rule: sendReq_loop.raw_induct[rotated 1, consumes 1])
  case (1 loop E c bo key req reverse s y)
  show ?case
    using 1(2)
    by (auto split: prod.splits sum.splits option.splits if_splits
        simp: call_LocateKey_def call_LocateEndKey_def call_SendReq_def call_Backoff_def
          call_error_def is_lookup_def
        intro!: sendReq_post_lookup_failed sendReq_post_send_failed
          sendReq_post_extraction_failed sendReq_post_backoff_failed sendReq_post_success
          sendReq_post_retry
        dest!: 1(1))
qed

lemmas example_defs = example_env_def example_client_def cluster_with_def ok_response_def
  stale_response_def region1_def region2_def

lemmas call_defs = call_NewBackofferWithVars_def call_LocateKey_def call_LocateEndKey_def
  call_SendReq_def call_Backoff_def call_Fork_def call_Cancel_def call_GroupKeysByRegion_def

lemma sendReq_loop_delivers:
  "sendReq_loop E c bo key req reverse s = Some y \<Longrightarrow>
     \<exists>tr. trace (snd y) = trace s @ tr \<and>
          list_all (\<lambda>x. fst x = req) (sent tr) \<and>
          delivered E tr =
            (case fst y of Inl e \<Rightarrow> [] | Inr (resp, loc) \<Rightarrow> [(req, Region loc, resp)])"
proof (induct rule: sendReq_loop.raw_induct[rotated 1, consumes 1])
  case (1 loop E c bo key req reverse s y)
  show ?case
    using 1(2)
    by (auto split: prod.splits sum.splits option.splits if_splits
        simp: call_LocateKey_def call_LocateEndKey_def call_SendReq_def call_Backoff_def
          sent_def delivered_def
        dest!: 1(1))
qed

lemma sendReq_delivers:
  assumes "sendReq E c key req reverse s = Some (r, s')"
  shows "\<exists>tr. trace s' = trace s @ tr \<and>
          list_all (\<lambda>x. fst x = req) (sent tr) \<and>
          delivered E tr =
            (case r of Inl e \<Rightarrow> [] | Inr (resp, loc) \<Rightarrow> [(req, Region loc, resp)])"
  using assms
  by (auto simp: sendReq_def call_NewBackofferWithVars_def sent_def delivered_def split: prod.splits
      dest!: sendReq_loop_delivers)

lemma sendReq_trace:
  assumes "sendReq E c key req reverse s = Some (r, s')"
  shows "\<exists>bo tr. trace s' = trace s @ EvNewBackoffer rawkvMaxBackoff bo # tr \<and>
           sendReq_post E reverse key r tr"
  using assms
  by (auto simp: sendReq_def call_NewBackofferWithVars_def split: prod.splits
      dest!: sendReq_loop_trace)




lemma sendReq_trace_grows:
  assumes "sendReq E c key req reverse s = Some (r, s')"
  shows "\<exists>tr. trace s' = trace s @ tr \<and> tr \<noteq> []"
  using sendReq_trace [OF assms] by auto

subsection \<open>Close\<close>

text \<open>
  C9. \<open>Close\<close> closes the placement client, then the region cache, then the RPC
  transport, each only if the client holds it, and nothing else; it returns what the
  transport's \<open>Close\<close> returns, and nil when the client holds no transport. The world
  it leaves is the one these calls make, in that order: each collaborator the client
  holds has been closed.
\<close>

theorem Close_releases_in_order:
  "trace (snd (Close E c s)) =
     trace s @
     (case pdClient c of None \<Rightarrow> [] | Some pd \<Rightarrow> [EvClosePD pd]) @
     (case regionCache c of None \<Rightarrow> [] | Some rc \<Rightarrow> [EvCloseCache rc]) @
     (case rpcClient c of None \<Rightarrow> [] | Some rpc \<Rightarrow> [EvCloseRPC rpc (fst (Close E c s))]) \<and>
   fst (Close E c s) =
     (case rpcClient c of
        None \<Rightarrow> None
      | Some rpc \<Rightarrow>
          fst (rpc_Close E rpc
                 ((case regionCache c of None \<Rightarrow> id | Some rc \<Rightarrow> cache_Close E rc)
                    ((case pdClient c of None \<Rightarrow> id | Some pd \<Rightarrow> pd_Close E pd) (world s))))) \<and>
   world (snd (Close E c s)) =
     (case rpcClient c of None \<Rightarrow> id | Some rpc \<Rightarrow> (\<lambda>w. snd (rpc_Close E rpc w)))
       ((case regionCache c of None \<Rightarrow> id | Some rc \<Rightarrow> cache_Close E rc)
          ((case pdClient c of None \<Rightarrow> id | Some pd \<Rightarrow> pd_Close E pd) (world s)))"
  by (simp add: Close_def Let_def split: option.splits prod.splits)

subsection \<open>The limit of a scan\<close>

lemma Scan_loop_trace:
  "Scan_loop E c startKey endKey limit keys vals s = Some y \<Longrightarrow>
     \<exists>tr. trace (snd y) = trace s @ tr \<and> (case fst y of Inl e \<Rightarrow> tr \<noteq> [] | Inr kv \<Rightarrow> True)"
proof (induct rule: Scan_loop.raw_induct[rotated 1, consumes 1])
  case (1 loop E c startKey endKey limit keys vals s y)
  show ?case
    using 1(2)
    by (auto split: if_splits option.splits prod.splits sum.splits RespBody.splits
        dest!: 1(1) sendReq_trace_grows)
qed

lemma ReverseScan_loop_trace:
  "ReverseScan_loop E c startKey endKey limit keys vals s = Some y \<Longrightarrow>
     \<exists>tr. trace (snd y) = trace s @ tr \<and> (case fst y of Inl e \<Rightarrow> tr \<noteq> [] | Inr kv \<Rightarrow> True)"
proof (induct rule: ReverseScan_loop.raw_induct[rotated 1, consumes 1])
  case (1 loop E c startKey endKey limit keys vals s y)
  show ?case
    using 1(2)
    by (auto split: if_splits option.splits prod.splits sum.splits RespBody.splits
        dest!: 1(1) sendReq_trace_grows)
qed

text \<open>
  C5. With a limit above 10240, \<open>Scan\<close> and \<open>ReverseScan\<close> return the error
  \<open>ErrMaxScanLimitExceeded\<close> and leave the world and the trace as they were: no lookup,
  no RPC. With the limit 10240 they go on to the walk, and an error they return then
  comes after a call to a collaborator.
\<close>

theorem Scan_limit_cap:
  "(10240 < limit \<longrightarrow>
      Scan E c startKey endKey limit s = Some (Inl ErrMaxScanLimitExceeded, s) \<and>
      ReverseScan E c startKey endKey limit s = Some (Inl ErrMaxScanLimitExceeded, s)) \<and>
   Scan E c startKey endKey 10240 s = Scan_loop E c startKey endKey 10240 [] [] s \<and>
   ReverseScan E c startKey endKey 10240 s = ReverseScan_loop E c startKey endKey 10240 [] [] s \<and>
   (\<forall>e s'. Scan E c startKey endKey 10240 s = Some (Inl e, s') \<longrightarrow> trace s' \<noteq> trace s) \<and>
   (\<forall>e s'. ReverseScan E c startKey endKey 10240 s = Some (Inl e, s') \<longrightarrow> trace s' \<noteq> trace s)"
  by (auto simp: Scan_def ReverseScan_def MaxRawKVScanLimit_def
      dest!: Scan_loop_trace ReverseScan_loop_trace)

text \<open>
  On the example cluster with a transport that has closed: the limit 10241 is refused
  at once, the limit 10240 reaches the transport.
\<close>

theorem Scan_limit_cap_witness:
  "(10240::int) < 10241 \<and>
   Scan example_env example_client ''a'' ''z'' 10241 (cluster_with []) =
     Some (Inl ErrMaxScanLimitExceeded, cluster_with []) \<and>
   ReverseScan example_env example_client ''z'' ''a'' 10241 (cluster_with []) =
     Some (Inl ErrMaxScanLimitExceeded, cluster_with []) \<and>
   (\<exists>s'. Scan example_env example_client ''a'' ''z'' 10240 (cluster_with []) =
            Some (Inl (ErrNew ''connection closed''), s') \<and>
          trace s' \<noteq> trace (cluster_with [])) \<and>
   (\<exists>s'. ReverseScan example_env example_client ''z'' ''a'' 10240 (cluster_with []) =
            Some (Inl (ErrNew ''connection closed''), s') \<and>
          trace s' \<noteq> trace (cluster_with []))"
proof -
  obtain s1 where run1:
    "Scan example_env example_client ''a'' ''z'' 10240 (cluster_with []) =
       Some (Inl (ErrNew ''connection closed''), s1)"
    by (simp add: Scan_def MaxRawKVScanLimit_def Scan_loop.simps sendReq_def
        sendReq_loop.simps example_defs call_defs bytes_Compare_def)
  obtain s2 where run2:
    "ReverseScan example_env example_client ''z'' ''a'' 10240 (cluster_with []) =
       Some (Inl (ErrNew ''connection closed''), s2)"
    by (simp add: ReverseScan_def MaxRawKVScanLimit_def ReverseScan_loop.simps sendReq_def
        sendReq_loop.simps example_defs call_defs bytes_Compare_def)
  note cap1 = Scan_limit_cap [of 10241 example_env example_client "''a''" "''z''" "cluster_with []"]
  note cap2 = Scan_limit_cap [of 10241 example_env example_client "''z''" "''a''" "cluster_with []"]
  have lt: "(10240::int) < 10241"
    by simp
  from cap1 lt have r1:
    "Scan example_env example_client ''a'' ''z'' 10241 (cluster_with []) =
       Some (Inl ErrMaxScanLimitExceeded, cluster_with [])"
    by blast
  from cap2 lt have r2:
    "ReverseScan example_env example_client ''z'' ''a'' 10241 (cluster_with []) =
       Some (Inl ErrMaxScanLimitExceeded, cluster_with [])"
    by blast
  from cap1 run1 have t1: "trace s1 \<noteq> trace (cluster_with [])"
    by blast
  from cap2 run2 have t2: "trace s2 \<noteq> trace (cluster_with [])"
    by blast
  from lt r1 r2 run1 run2 t1 t2 show ?thesis
    by blast
qed

text \<open>
  C10. With a limit of zero or less, \<open>Scan\<close> and \<open>ReverseScan\<close> return no keys, no
  values and no error, and leave the world and the trace as they were.
\<close>

theorem Scan_nonpositive_limit:
  "limit \<le> 0 \<Longrightarrow>
     Scan E c startKey endKey limit s = Some (Inr ([], []), s) \<and>
     ReverseScan E c startKey endKey limit s = Some (Inr ([], []), s)"
  by (simp add: Scan_def ReverseScan_def MaxRawKVScanLimit_def Scan_loop.simps
      ReverseScan_loop.simps)

theorem Scan_nonpositive_limit_witness:
  "(- 3::int) \<le> 0 \<and>
   Scan example_env example_client ''a'' ''z'' (- 3) (cluster_with []) =
     Some (Inr ([], []), cluster_with []) \<and>
   ReverseScan example_env example_client ''z'' ''a'' (- 3) (cluster_with []) =
     Some (Inr ([], []), cluster_with [])"
  using Scan_nonpositive_limit [of "- 3" example_env example_client "''a''" "''z''" "cluster_with []"]
    Scan_nonpositive_limit [of "- 3" example_env example_client "''z''" "''a''" "cluster_with []"]
  by simp

subsection \<open>The forward scan\<close>

lemma delivered_append: "delivered E (a @ b) = delivered E a @ delivered E b"
  by (simp add: delivered_def)

lemma scanned_append: "scanned E (a @ b) = scanned E a @ scanned E b"
  by (simp add: scanned_def delivered_append)

lemma sent_append: "sent (a @ b) = sent a @ sent b"
  by (simp add: sent_def)

lemma remaining_limit:
  assumes "int n < limit" and "limit \<le> 10240"
  shows "uint (word_of_int (limit - int n) :: 32 word) = limit - int n"
proof -
  have "uint (word_of_int (limit - int n) :: 32 word) = take_bit 32 (limit - int n)"
    by (simp del: of_int_diff add: uint_word_of_int_eq)
  moreover have "take_bit 32 (limit - int n) = limit - int n"
    using assms by (intro take_bit_int_eq_self) auto
  ultimately show ?thesis
    by (simp only:)
qed

lemma forward_scan_request_remaining:
  "int n < limit \<Longrightarrow> limit \<le> 10240 \<Longrightarrow>
    forward_scan_request endKey limit
      (NewRequest CmdRawScan (RawScanRequest startKey endKey (word_of_int (limit - int n)) False))"
  using remaining_limit [of n limit]
  by (simp add: forward_scan_request_def NewRequest_def del: of_int_diff)

lemma Scan_loop_result:
  "Scan_loop E c startKey endKey limit keys vals s = Some y \<Longrightarrow> limit \<le> 10240 \<Longrightarrow>
     \<exists>tr. trace (snd y) = trace s @ tr \<and>
          list_all (\<lambda>x. forward_scan_request endKey limit (fst x)) (sent tr) \<and>
          (case fst y of
             Inl e \<Rightarrow> True
           | Inr (ks, vs) \<Rightarrow>
               ks = keys @ map Key (scanned E tr) \<and> vs = vals @ map Val (scanned E tr))"
proof (induct rule: Scan_loop.raw_induct[rotated 1, consumes 1])
  case (1 loop E c startKey endKey limit keys vals s y)
  show ?case
  proof (cases "int (length keys) < limit \<and> (length endKey = 0 \<or> bytes_Compare startKey endKey < 0)")
    case False
    with 1(2) show ?thesis
      by (auto simp: sent_def scanned_def delivered_def)
  next
    case True
    let ?req = "NewRequest CmdRawScan
                   (RawScanRequest startKey endKey (word_of_int (limit - int (length keys))) False)"
    have ok: "forward_scan_request endKey limit ?req"
      using True 1(3) by (intro forward_scan_request_remaining) auto
    from True 1(2) obtain r s1 where
      send: "sendReq E c startKey ?req False s = Some (r, s1)"
      by (auto split: option.splits)
    from sendReq_delivers [OF send] obtain tr1 where
      tr1: "trace s1 = trace s @ tr1" "list_all (\<lambda>x. fst x = ?req) (sent tr1)"
        "delivered E tr1 = (case r of Inl e \<Rightarrow> [] | Inr (resp, loc) \<Rightarrow> [(?req, Region loc, resp)])"
      by blast
    from tr1(2) ok have oks: "list_all (\<lambda>x. forward_scan_request endKey limit (fst x)) (sent tr1)"
      by (auto simp: list_all_iff)
    show ?thesis
      using True 1(2) send tr1 oks 1(3)
      by (auto split: sum.splits option.splits RespBody.splits if_splits prod.splits
          simp: scanned_def sent_append delivered_append
          dest!: 1(1))
  qed
qed

lemma bytes_Compare_less: "bytes_Compare a b < 0 \<longleftrightarrow> a < b"
  by (simp add: bytes_Compare_def)

text \<open>
  C7. The forward scan, for a limit that \<open>Scan\<close> lets through: \<open>Scan\<close> is its loop
  run from the caller's start key with the caller's limit and no pairs accumulated. When the
  accumulated keys have reached the limit, or the end key is not empty and the start key
  is not below it, the loop returns the accumulators and calls nothing. Otherwise it
  sends, through \<open>sendReq\<close>, a scan request whose limit is the limit less the number of
  keys accumulated; an error of \<open>sendReq\<close> ends the scan; a scan response has its keys
  and values appended, in its order, and then the loop ends if the end key of the
  located region is empty and goes on from that end key if not. So a scan that succeeds
  returns the pairs of the responses it was given, in order, keys and values of equal
  number, and each of its requests asked for at least one and at most \<open>limit\<close> pairs.
\<close>

theorem Scan_walk:
  assumes "limit \<le> 10240"
  shows
    "(\<not> (int (length keys) < limit \<and> (endKey = [] \<or> startKey < endKey)) \<longrightarrow>
        Scan_loop E c startKey endKey limit keys vals s = Some (Inr (keys, vals), s)) \<and>
     (int (length keys) < limit \<and> (endKey = [] \<or> startKey < endKey) \<longrightarrow>
        uint (word_of_int (limit - int (length keys)) :: 32 word) = limit - int (length keys) \<and>
        (\<forall>e s1.
           sendReq E c startKey
             (NewRequest CmdRawScan
                (RawScanRequest startKey endKey (word_of_int (limit - int (length keys))) False))
             False s = Some (Inl e, s1) \<longrightarrow>
           Scan_loop E c startKey endKey limit keys vals s = Some (Inl e, s1)) \<and>
        (\<forall>resp loc s1 kvs.
           sendReq E c startKey
             (NewRequest CmdRawScan
                (RawScanRequest startKey endKey (word_of_int (limit - int (length keys))) False))
             False s = Some (Inr (resp, loc), s1) \<and>
           Resp resp = Some (RawScanResponse kvs) \<longrightarrow>
           Scan_loop E c startKey endKey limit keys vals s =
             (if EndKey loc = [] then Some (Inr (keys @ map Key kvs, vals @ map Val kvs), s1)
              else Scan_loop E c (EndKey loc) endKey limit
                     (keys @ map Key kvs) (vals @ map Val kvs) s1))) \<and>
     Scan E c startKey endKey limit s = Scan_loop E c startKey endKey limit [] [] s \<and>
     (\<forall>ks vs s'.
        Scan E c startKey endKey limit s = Some (Inr (ks, vs), s') \<longrightarrow>
        (\<exists>tr. trace s' = trace s @ tr \<and>
              ks = map Key (scanned E tr) \<and> vs = map Val (scanned E tr) \<and>
              length ks = length vs \<and>
              list_all (\<lambda>x. forward_scan_request endKey limit (fst x)) (sent tr)))"
proof (intro conjI impI allI)
  show "Scan E c startKey endKey limit s = Scan_loop E c startKey endKey limit [] [] s"
    using assms by (simp add: Scan_def MaxRawKVScanLimit_def)
next
  assume "\<not> (int (length keys) < limit \<and> (endKey = [] \<or> startKey < endKey))"
  then show "Scan_loop E c startKey endKey limit keys vals s = Some (Inr (keys, vals), s)"
    by (subst Scan_loop.simps) (auto simp: bytes_Compare_less)
next
  assume "int (length keys) < limit \<and> (endKey = [] \<or> startKey < endKey)"
  then show "uint (word_of_int (limit - int (length keys)) :: 32 word) = limit - int (length keys)"
    using assms by (intro remaining_limit) auto
next
  fix e s1
  assume "int (length keys) < limit \<and> (endKey = [] \<or> startKey < endKey)"
    and "sendReq E c startKey
             (NewRequest CmdRawScan
                (RawScanRequest startKey endKey (word_of_int (limit - int (length keys))) False))
             False s = Some (Inl e, s1)"
  then show "Scan_loop E c startKey endKey limit keys vals s = Some (Inl e, s1)"
    by (subst Scan_loop.simps) (auto simp: bytes_Compare_less simp del: of_int_diff)
next
  fix resp loc s1 kvs
  assume "int (length keys) < limit \<and> (endKey = [] \<or> startKey < endKey)"
    and "sendReq E c startKey
             (NewRequest CmdRawScan
                (RawScanRequest startKey endKey (word_of_int (limit - int (length keys))) False))
             False s = Some (Inr (resp, loc), s1) \<and>
           Resp resp = Some (RawScanResponse kvs)"
  then show "Scan_loop E c startKey endKey limit keys vals s =
             (if EndKey loc = [] then Some (Inr (keys @ map Key kvs, vals @ map Val kvs), s1)
              else Scan_loop E c (EndKey loc) endKey limit
                     (keys @ map Key kvs) (vals @ map Val kvs) s1)"
    by (subst Scan_loop.simps) (auto simp: bytes_Compare_less simp del: of_int_diff)
next
  fix ks vs s'
  assume run: "Scan E c startKey endKey limit s = Some (Inr (ks, vs), s')"
  then have "Scan_loop E c startKey endKey limit [] [] s = Some (Inr (ks, vs), s')"
    by (simp add: Scan_def split: if_splits)
  from Scan_loop_result [OF this assms]
  show "\<exists>tr. trace s' = trace s @ tr \<and>
              ks = map Key (scanned E tr) \<and> vs = map Val (scanned E tr) \<and>
              length ks = length vs \<and>
              list_all (\<lambda>x. forward_scan_request endKey limit (fst x)) (sent tr)"
    by auto
qed

text \<open>
  On the example cluster: a scan of an empty range, and a scan from \<open>a\<close> to \<open>z\<close> that
  crosses from the first region into the second.
\<close>

theorem Scan_walk_witness:
  "(100::int) \<le> 10240 \<and> (1::int) \<le> 10240 \<and>
   \<not> (int (length ([]::bytes list)) < 1 \<and> (''a'' = [] \<or> ''a'' < ''a'')) \<and>
   Scan_loop example_env example_client ''a'' ''a'' 1 [] [] two_scans =
     Some (Inr ([], []), two_scans) \<and>
   int (length ([]::bytes list)) < 100 \<and> ''a'' < ''z'' \<and>
   uint (word_of_int (100 - int (length ([]::bytes list))) :: 32 word) = 100 \<and>
   (\<exists>resp s1.
      sendReq example_env example_client ''a''
        (NewRequest CmdRawScan (RawScanRequest ''a'' ''z'' 100 False)) False two_scans =
        Some (Inr (resp, region1), s1) \<and>
      Resp resp = Some (RawScanResponse [\<lparr>Key = ''a'', Val = Some ''1''\<rparr>]) \<and>
      Scan_loop example_env example_client ''a'' ''z'' 100 [] [] two_scans =
        Scan_loop example_env example_client ''m'' ''z'' 100 [''a''] [Some ''1''] s1) \<and>
   (\<exists>s' tr.
      Scan example_env example_client ''a'' ''z'' 100 two_scans =
        Some (Inr ([''a'', ''n''], [Some ''1'', Some ''2'']), s') \<and>
      trace s' = trace two_scans @ tr \<and>
      map Key (scanned example_env tr) = [''a'', ''n''] \<and>
      map Val (scanned example_env tr) = [Some ''1'', Some ''2''] \<and>
      list_all (\<lambda>x. forward_scan_request ''z'' 100 (fst x)) (sent tr))"
proof -
  note w1 = Scan_walk [of 1 "[]" "''a''" "''a''" example_env example_client "[]" two_scans]
  note w100 = Scan_walk [of 100 "[]" "''z''" "''a''" example_env example_client "[]" two_scans]
  have exit: "Scan_loop example_env example_client ''a'' ''a'' 1 [] [] two_scans =
     Some (Inr ([], []), two_scans)"
    using w1 by simp
  obtain resp s1 where first:
    "sendReq example_env example_client ''a''
        (NewRequest CmdRawScan (RawScanRequest ''a'' ''z'' 100 False)) False two_scans =
        Some (Inr (resp, region1), s1)"
    "Resp resp = Some (RawScanResponse [\<lparr>Key = ''a'', Val = Some ''1''\<rparr>])"
    by (simp add: sendReq_def sendReq_loop.simps example_defs call_defs two_scans_def)
  have step: "Scan_loop example_env example_client ''a'' ''z'' 100 [] [] two_scans =
        Scan_loop example_env example_client ''m'' ''z'' 100 [''a''] [Some ''1''] s1"
    using w100 first by (simp add: region1_def)
  obtain s' where run:
    "Scan example_env example_client ''a'' ''z'' 100 two_scans =
        Some (Inr ([''a'', ''n''], [Some ''1'', Some ''2'']), s')"
    by (simp add: Scan_def MaxRawKVScanLimit_def Scan_loop.simps sendReq_def
        sendReq_loop.simps example_defs call_defs bytes_Compare_def two_scans_def)
  from w100 run obtain tr where
    "trace s' = trace two_scans @ tr"
    "map Key (scanned example_env tr) = [''a'', ''n'']"
    "map Val (scanned example_env tr) = [Some ''1'', Some ''2'']"
    "list_all (\<lambda>x. forward_scan_request ''z'' 100 (fst x)) (sent tr)"
    by auto
  with exit first step run show ?thesis
    by auto
qed

subsection \<open>The sequential range delete\<close>

lemma actual_end_code:
  "(if EndKey loc \<noteq> [] \<and> bytes_Compare (EndKey loc) endKey < 0 then EndKey loc else endKey)
     = actual_end loc endKey"
  by (auto simp: actual_end_def bytes_Compare_less min_def)

lemma sendDeleteRangeReq_loop_trace:
  "sendDeleteRangeReq_loop E c bo startKey endKey s = Some y \<Longrightarrow>
     \<exists>tr. trace (snd y) = trace s @ tr \<and> delete_step_post E bo startKey endKey (fst y) tr"
proof (induct rule: sendDeleteRangeReq_loop.raw_induct[rotated 1, consumes 1])
  case (1 loop E c bo startKey endKey s y)
  obtain r1 s1 where l: "call_LocateKey E c bo startKey s = (r1, s1)"
    by (cases "call_LocateKey E c bo startKey s")
  then have t1: "trace s1 = trace s @ [EvLocateKey bo startKey r1]"
    by (auto simp: call_LocateKey_def split: prod.splits)
  show ?case
  proof (cases r1)
    case (Inl e)
    with 1(2) l t1 show ?thesis
      by (auto simp: delete_step_post_def backoff_charges_def region_errors_def is_lookup_def
          is_granted_def sent_def delivered_def)
  next
    case (Inr loc)
    let ?req = "delete_range_request E startKey (actual_end loc endKey)"
    obtain r2 s2 where sd: "call_SendReq E c bo ?req (Region loc) s1 = (r2, s2)"
      by (cases "call_SendReq E c bo ?req (Region loc) s1")
    then have t2: "trace s2 = trace s1 @ [EvSendReq bo ?req (Region loc) r2]"
      by (auto simp: call_SendReq_def split: prod.splits)
    from 1(2) l Inr sd have body:
      "(case r2 of
          Inl err \<Rightarrow> Some (Inl err, s2)
        | Inr resp \<Rightarrow>
            (case GetRegionError E resp of
               Inl err \<Rightarrow> Some (Inl err, s2)
             | Inr (Some regionErr) \<Rightarrow>
                 (case call_Backoff E bo BoRegionMiss (ErrNew regionErr) s2 of
                    (Some err, s3) \<Rightarrow> Some (Inl err, s3)
                  | (None, s3) \<Rightarrow> loop E c bo startKey endKey s3)
             | Inr None \<Rightarrow> Some (Inr (resp, actual_end loc endKey), s2))) = Some y"
      by (simp add: actual_end_code delete_range_request_def Let_def)
    show ?thesis
      using body t1 t2 Inr
      by (auto split: sum.splits option.splits prod.splits
          simp: call_Backoff_def delete_step_post_def backoff_charges_def region_errors_def
            is_lookup_def is_granted_def sent_def delivered_def
          dest!: 1(1))
  qed
qed


lemma sendDeleteRangeReq_trace:
  assumes "sendDeleteRangeReq E c startKey endKey s = Some (r, s')"
  shows "\<exists>bo tr. trace s' = trace s @ EvNewBackoffer rawkvMaxBackoff bo # tr \<and>
           delete_step_post E bo startKey endKey r tr"
  using assms
  by (auto simp: sendDeleteRangeReq_def call_NewBackofferWithVars_def split: prod.splits
      dest!: sendDeleteRangeReq_loop_trace)

lemma actual_end_le: "actual_end loc endKey \<le> endKey"
  by (simp add: actual_end_def)

lemma delete_ranges_append: "delete_ranges E (a @ b) = delete_ranges E a @ delete_ranges E b"
  by (simp add: delete_ranges_def delivered_append)

lemma delete_ranges_Cons_append:
  "delete_ranges E (e # a @ b) = delete_ranges E (e # a) @ delete_ranges E b"
  using delete_ranges_append [of E "e # a" b] by simp

lemma delete_step_post_ranges:
  "delete_step_post E bo startKey endKey (Inr (resp, actualEndKey)) tr \<Longrightarrow>
     delete_ranges E (EvNewBackoffer n bo' # tr) = [(startKey, actualEndKey)] \<and>
     actualEndKey \<le> endKey"
  by (auto simp: delete_step_post_def delete_ranges_def delivered_def delete_range_request_def
      NewRequest_def actual_end_le)

lemma tiles_Cons: "tiles a b ((a, y) # rs) \<longleftrightarrow> y \<le> b \<and> tiles y b rs"
  by simp

lemma DeleteRange_tiles:
  "DeleteRange E c startKey endKey s = Some y \<Longrightarrow>
     \<exists>tr. trace (snd y) = trace s @ tr \<and>
          (case fst y of None \<Rightarrow> tiles startKey endKey (delete_ranges E tr) | Some e \<Rightarrow> True)"
proof (induct rule: DeleteRange.raw_induct[rotated 1, consumes 1])
  case (1 loop E c startKey endKey s y)
  show ?case
  proof (cases "startKey = endKey")
    case True
    with 1(2) show ?thesis
      by (auto simp: bytes_Equal_def delete_ranges_def delivered_def)
  next
    case False
    with 1(2) obtain r s1 where
      step: "sendDeleteRangeReq E c startKey endKey s = Some (r, s1)"
      by (auto simp: bytes_Equal_def split: option.splits)
    from sendDeleteRangeReq_trace [OF step] obtain bo tr1 where
      tr1: "trace s1 = trace s @ EvNewBackoffer rawkvMaxBackoff bo # tr1"
        "delete_step_post E bo startKey endKey r tr1"
      by blast
    show ?thesis
    proof (cases r)
      case (Inl e)
      with 1(2) False step tr1 show ?thesis
        by (auto simp: bytes_Equal_def)
    next
      case (Inr p)
      obtain resp actualEndKey where p: "p = (resp, actualEndKey)"
        by (cases p)
      from tr1(2) Inr p have
        rng: "delete_ranges E (EvNewBackoffer rawkvMaxBackoff bo # tr1) = [(startKey, actualEndKey)]"
          "actualEndKey \<le> endKey"
        using delete_step_post_ranges by blast+
      show ?thesis
        using 1(2) False step tr1(1) Inr p rng
        by (auto simp: bytes_Equal_def delete_ranges_Cons_append
            split: option.splits RespBody.splits if_splits
            dest!: 1(1))
    qed
  qed
qed

text \<open>
  C8. \<open>DeleteRange\<close> with the start key equal to the end key returns at once and calls
  nothing. Otherwise one step is a run of \<open>sendDeleteRangeReq\<close>, which satisfies
  \<open>delete_step_post\<close>: region errors are answered by a backoff and the same request is
  tried again after a new lookup, and the step ends with one request, for the range from
  the start key to the smaller of the region's end key and the end key, sent to the
  located region. After a step that succeeded the walk goes on from the end of that
  range. So the ranges deleted by a walk that succeeds cover the range from the start key
  to the end key piece by piece.
\<close>

theorem DeleteRange_walk:
  "(startKey = endKey \<longrightarrow> DeleteRange E c startKey endKey s = Some (None, s)) \<and>
   (\<forall>r s1.
      sendDeleteRangeReq E c startKey endKey s = Some (r, s1) \<longrightarrow>
      (\<exists>bo tr. trace s1 = trace s @ EvNewBackoffer rawkvMaxBackoff bo # tr \<and>
               delete_step_post E bo startKey endKey r tr)) \<and>
   (\<forall>resp actualEndKey s1.
      startKey \<noteq> endKey \<and>
      sendDeleteRangeReq E c startKey endKey s = Some (Inr (resp, actualEndKey), s1) \<and>
      Resp resp = Some (RawDeleteRangeResponse []) \<longrightarrow>
      DeleteRange E c startKey endKey s = DeleteRange E c actualEndKey endKey s1) \<and>
   (\<forall>s'.
      DeleteRange E c startKey endKey s = Some (None, s') \<longrightarrow>
      (\<exists>tr. trace s' = trace s @ tr \<and> tiles startKey endKey (delete_ranges E tr)))"
proof (intro conjI impI allI)
  assume "startKey = endKey"
  then show "DeleteRange E c startKey endKey s = Some (None, s)"
    by (subst DeleteRange.simps) (simp add: bytes_Equal_def)
next
  fix r s1
  assume "sendDeleteRangeReq E c startKey endKey s = Some (r, s1)"
  then show "\<exists>bo tr. trace s1 = trace s @ EvNewBackoffer rawkvMaxBackoff bo # tr \<and>
               delete_step_post E bo startKey endKey r tr"
    by (rule sendDeleteRangeReq_trace)
next
  fix resp actualEndKey s1
  assume "startKey \<noteq> endKey \<and>
      sendDeleteRangeReq E c startKey endKey s = Some (Inr (resp, actualEndKey), s1) \<and>
      Resp resp = Some (RawDeleteRangeResponse [])"
  then show "DeleteRange E c startKey endKey s = DeleteRange E c actualEndKey endKey s1"
    by (subst DeleteRange.simps) (simp add: bytes_Equal_def)
next
  fix s'
  assume "DeleteRange E c startKey endKey s = Some (None, s')"
  from DeleteRange_tiles [OF this]
  show "\<exists>tr. trace s' = trace s @ tr \<and> tiles startKey endKey (delete_ranges E tr)"
    by simp
qed

text \<open>
  On the example cluster: an empty range, and the range from \<open>a\<close> to \<open>z\<close>, deleted in
  two steps, the first of which is retried after a region error.
\<close>

lemmas delete_eval = DeleteRange.simps sendDeleteRangeReq_def sendDeleteRangeReq_loop.simps
  example_defs call_defs bytes_Compare_def bytes_Equal_def two_deletes_def Let_def

theorem DeleteRange_walk_witness:
  "DeleteRange example_env example_client ''z'' ''z'' two_deletes = Some (None, two_deletes) \<and>
   (\<exists>resp s1 bo tr.
      ''a'' \<noteq> ''z'' \<and>
      sendDeleteRangeReq example_env example_client ''a'' ''z'' two_deletes =
        Some (Inr (resp, ''m''), s1) \<and>
      Resp resp = Some (RawDeleteRangeResponse []) \<and>
      trace s1 = trace two_deletes @ EvNewBackoffer rawkvMaxBackoff bo # tr \<and>
      delete_step_post example_env bo ''a'' ''z'' (Inr (resp, ''m'')) tr \<and>
      backoff_charges tr = [(BoRegionMiss, ErrNew ''epoch not match'')] \<and>
      DeleteRange example_env example_client ''a'' ''z'' two_deletes =
        DeleteRange example_env example_client ''m'' ''z'' s1) \<and>
   (\<exists>s' tr.
      DeleteRange example_env example_client ''a'' ''z'' two_deletes = Some (None, s') \<and>
      trace s' = trace two_deletes @ tr \<and>
      tiles ''a'' ''z'' (delete_ranges example_env tr) \<and>
      delete_ranges example_env tr = [(''a'', ''m''), (''m'', ''z'')])"
proof -
  note wz = DeleteRange_walk [of "''z''" "''z''" example_env example_client two_deletes]
  note wa = DeleteRange_walk [of "''a''" "''z''" example_env example_client two_deletes]
  have t0: "trace two_deletes = []"
    by (simp add: two_deletes_def cluster_with_def)
  have empty: "DeleteRange example_env example_client ''z'' ''z'' two_deletes =
      Some (None, two_deletes)"
    using wz by simp
  obtain resp s1 where first:
    "sendDeleteRangeReq example_env example_client ''a'' ''z'' two_deletes =
        Some (Inr (resp, ''m''), s1)"
    "Resp resp = Some (RawDeleteRangeResponse [])"
    "backoff_charges (trace s1) = [(BoRegionMiss, ErrNew ''epoch not match'')]"
    by (simp add: delete_eval backoff_charges_def)
  from wa first(1) obtain bo tr1 where tr1:
    "trace s1 = trace two_deletes @ EvNewBackoffer rawkvMaxBackoff bo # tr1"
    "delete_step_post example_env bo ''a'' ''z'' (Inr (resp, ''m'')) tr1"
    by blast
  from tr1(1) first(3) t0 have charges:
    "backoff_charges tr1 = [(BoRegionMiss, ErrNew ''epoch not match'')]"
    by (simp add: backoff_charges_def)
  have ne: "''a'' \<noteq> ''z''"
    by simp
  from wa ne first(1,2) have step:
    "DeleteRange example_env example_client ''a'' ''z'' two_deletes =
       DeleteRange example_env example_client ''m'' ''z'' s1"
    by blast
  obtain s' where run:
    "DeleteRange example_env example_client ''a'' ''z'' two_deletes = Some (None, s')"
    "delete_ranges example_env (trace s') = [(''a'', ''m''), (''m'', ''z'')]"
    by (simp add: delete_eval delete_ranges_def delivered_def NewRequest_def)
  from wa run(1) obtain tr where tr:
    "trace s' = trace two_deletes @ tr" "tiles ''a'' ''z'' (delete_ranges example_env tr)"
    by blast
  from tr(1) t0 run(2) have "delete_ranges example_env tr = [(''a'', ''m''), (''m'', ''z'')]"
    by simp
  with empty ne first(1,2) tr1 charges step run(1) tr show ?thesis
    by blast
qed

subsection \<open>The batched range delete\<close>

lemmas batch_delete_eval = BatchDeleteRange_def BatchDeleteRange_loop.simps
  doBatchDeleteRangeReq.simps log_Error_def zero_KeyLocation_def
  example_defs call_defs bytes_Compare_def bytes_Equal_def Let_def eval_nat_numeral

text \<open>
  C2 does not hold of the code. On the example cluster with a transport that has closed,
  \<open>BatchDeleteRange\<close> from \<open>a\<close> to \<open>b\<close> with batches of one runs two tasks; the send
  of each fails and the collector keeps the first error, yet \<open>BatchDeleteRange\<close> returns
  nil: its last statement is \<open>return nil\<close>, not \<open>return err\<close>.
\<close>

theorem BatchDeleteRange_returns_nil_after_task_errors:
  "map_option fst
     (BatchDeleteRange example_env example_client ''a'' ''b'' 1 (cluster_with [])) = Some None \<and>
   map_option (\<lambda>y. List.map_filter call_error (trace (snd y)))
     (BatchDeleteRange example_env example_client ''a'' ''b'' 1 (cluster_with [])) =
     Some [ErrNew ''connection closed'', ErrNew ''connection closed'']"
  by (simp add: batch_delete_eval call_error_def List.map_filter_def)

text \<open>
  C3 does not hold of the code. On the example cluster, \<open>BatchDeleteRange\<close> from \<open>a\<close>
  to \<open>z\<close> with batches of one goes twice round its outer loop. The first time it sends
  two requests, the second time three: \<open>keyLocations\<close> starts with \<open>batchSize\<close> zero
  locations and is never emptied, so every round sends again what the rounds before
  collected. And every location collected has its start key equal to its end key,
  because \<open>tmpStartKey\<close> is assigned before the location is built: no request covers any
  part of the range from \<open>a\<close> to \<open>z\<close>.
\<close>

theorem BatchDeleteRange_sends_empty_ranges:
  "map_option (\<lambda>y. map (\<lambda>x. (Req (fst x), snd x)) (sent (trace (snd y))))
     (BatchDeleteRange example_env example_client ''a'' ''z'' 1
        (cluster_with (replicate 5 (ok_response (RawDeleteRangeResponse []))))) =
     Some [(RawDeleteRangeRequest [] [], 0),
           (RawDeleteRangeRequest ''m'' ''m'', 1),
           (RawDeleteRangeRequest [] [], 0),
           (RawDeleteRangeRequest ''m'' ''m'', 1),
           (RawDeleteRangeRequest ''z'' ''z'', 2)] \<and>
   map_option fst
     (BatchDeleteRange example_env example_client ''a'' ''z'' 1
        (cluster_with (replicate 5 (ok_response (RawDeleteRangeResponse []))))) = Some None"
  by (simp add: batch_delete_eval sent_def NewRequest_def)

subsection \<open>The values of a batch get\<close>

lemma BatchGet_keyToValue_last:
  "BatchGet_keyToValue pairs k =
     (case filter (\<lambda>p. Key p = k) pairs of [] \<Rightarrow> None | q # qs \<Rightarrow> Some (Val (last (q # qs))))"
proof (induction pairs rule: rev_induct)
  case Nil
  show ?case by (simp add: BatchGet_keyToValue_def)
next
  case (snoc p ps)
  then show ?case
    by (auto simp: BatchGet_keyToValue_def split: list.splits)
qed

lemma BatchGet_values_upto:
  "k \<le> length xs \<Longrightarrow>
     length (foldl (\<lambda>vals i. vals[i := g i]) xs [0..<k]) = length xs \<and>
     (\<forall>i < length xs. foldl (\<lambda>vals i. vals[i := g i]) xs [0..<k] ! i =
                        (if i < k then g i else xs ! i))"
proof (induction k)
  case 0
  show ?case by simp
next
  case (Suc k)
  then show ?case
    by (auto simp: nth_list_update)
qed

lemma BatchGet_values_map:
  "BatchGet_values (BatchGet_keyToValue pairs) keys = map (last_value pairs) keys"
proof -
  let ?g = "\<lambda>i. case BatchGet_keyToValue pairs (keys ! i) of None \<Rightarrow> None | Some v \<Rightarrow> v"
  note upto = BatchGet_values_upto [of "length keys" "replicate (length keys) None" ?g]
  have len: "length (BatchGet_values (BatchGet_keyToValue pairs) keys) = length keys"
    using upto by (simp add: BatchGet_values_def)
  have nth: "BatchGet_values (BatchGet_keyToValue pairs) keys ! i = last_value pairs (keys ! i)"
    if "i < length keys" for i
    using upto that
    by (simp add: BatchGet_values_def BatchGet_keyToValue_last last_value_def split: list.splits)
  show ?thesis
    by (rule nth_equalityI) (simp_all add: len nth)
qed

lemma last_value_absent: "\<forall>p \<in> set pairs. Key p \<noteq> k \<Longrightarrow> last_value pairs k = None"
  by (simp add: last_value_def filter_empty_conv[THEN iffD2] split: list.splits)

lemma last_value_present:
  assumes "\<exists>p \<in> set pairs. Key p = k"
  shows "\<exists>p \<in> set pairs. Key p = k \<and> last_value pairs k = Val p"
proof -
  from assms have ne: "filter (\<lambda>p. Key p = k) pairs \<noteq> []"
    by (simp add: filter_empty_conv)
  then have "last (filter (\<lambda>p. Key p = k) pairs) \<in> set (filter (\<lambda>p. Key p = k) pairs)"
    by (rule last_in_set)
  with ne show ?thesis
    by (auto simp: last_value_def split: list.splits)
qed

lemma batch_get_pairs_append:
  "batch_get_pairs E (a @ b) = batch_get_pairs E a @ batch_get_pairs E b"
  by (simp add: batch_get_pairs_def delivered_append)

lemma collect_keeps_error:
  "fe \<noteq> None \<Longrightarrow> snd (fst (sendBatchReq_collect E bo cmd rs resp fe s)) \<noteq> None"
  by (induction rs arbitrary: resp fe s)
     (auto split: option.splits RespBody.splits)

lemma collect_batch_get:
  "sendBatchReq_collect E bo CmdRawBatchGet rs (Some acc) fe s = ((x, None), s') \<Longrightarrow>
   Resp acc = Some (RawBatchGetResponse aps) \<Longrightarrow>
     fe = None \<and> s' = s \<and> (\<forall>br \<in> set rs. Error br = None) \<and>
     (\<exists>pss r. map result_pairs rs = map Some pss \<and> x = Some r \<and>
              Resp r = Some (RawBatchGetResponse (aps @ concat pss)))"
proof (induction rs arbitrary: acc aps fe s)
  case Nil
  then show ?case by auto
next
  case (Cons br rs)
  show ?case
  proof (cases "Error br")
    case (Some e)
    have "(if fe = None then Some e else fe) \<noteq> None"
      by auto
    from collect_keeps_error [OF this, of E bo CmdRawBatchGet rs "Some acc" "call_Cancel E bo s"]
      Cons.prems(1) Some
    show ?thesis
      by simp
  next
    case None
    with Cons.prems obtain r ps where
      r: "Response br = Some r" "Resp r = Some (RawBatchGetResponse ps)"
      and rest: "sendBatchReq_collect E bo CmdRawBatchGet rs
                   (Some (acc\<lparr>Resp := Some (RawBatchGetResponse (aps @ ps))\<rparr>)) fe s = ((x, None), s')"
      by (auto split: option.splits RespBody.splits)
    from Cons.IH [OF rest, of "aps @ ps"] obtain pss r' where
      "fe = None" "s' = s" "\<forall>br \<in> set rs. Error br = None"
      "map result_pairs rs = map Some pss" "x = Some r'"
      "Resp r' = Some (RawBatchGetResponse ((aps @ ps) @ concat pss))"
      by auto
    moreover from r have "result_pairs br = Some ps"
      by (simp add: result_pairs_def)
    ultimately show ?thesis
      using None by (auto intro!: exI [of _ "ps # pss"])
  qed
qed

lemma batch_get_pairs_Nil [simp]: "batch_get_pairs E [] = []"
  by (simp add: batch_get_pairs_def delivered_def)

lemma batch_get_pairs_skip:
  "delivered E [ev] = [] \<Longrightarrow> batch_get_pairs E (ev # tr) = batch_get_pairs E tr"
  using batch_get_pairs_append [of E "[ev]" tr] by (simp add: batch_get_pairs_def)

lemma collect_trace:
  "\<exists>tr. trace (snd (sendBatchReq_collect E bo cmd rs resp fe s)) = trace s @ tr"
proof (induction rs arbitrary: resp fe s)
  case Nil
  show ?case by simp
next
  case (Cons br rs)
  show ?case
  proof (cases "Error br")
    case (Some e)
    from Cons.IH [of resp "if fe = None then Some e else fe" "call_Cancel E bo s"]
    obtain tr where
      "trace (snd (sendBatchReq_collect E bo cmd rs resp (if fe = None then Some e else fe)
         (call_Cancel E bo s))) = trace (call_Cancel E bo s) @ tr"
      by blast
    with Some show ?thesis
      by (simp add: call_Cancel_def)
  next
    case None
    show ?thesis
    proof (cases "cmd = CmdRawBatchGet")
      case True
      with None Cons.IH [where fe = fe and s = s] show ?thesis
        by (simp split: option.splits RespBody.splits)
    next
      case False
      with None Cons.IH [of resp fe s] show ?thesis
        by simp
    qed
  qed
qed

lemma sendBatchReq_pairs:
  "cmdType = CmdRawBatchGet \<Longrightarrow>
     sendBatchReq n E c bo keys cmdType s = Some ((x, fe), s') \<Longrightarrow>
     \<exists>tr. trace s' = trace s @ tr \<and>
          (fe = None \<longrightarrow>
             (\<exists>r. x = Some r \<and> Resp r = Some (RawBatchGetResponse (batch_get_pairs E tr))))"
  and doBatchReq_pairs:
  "cmdType = CmdRawBatchGet \<Longrightarrow>
     doBatchReq n E c bo batch cmdType s = Some (br, s') \<Longrightarrow>
     \<exists>tr. trace s' = trace s @ tr \<and>
          (Error br = None \<longrightarrow>
             (\<forall>ps. result_pairs br = Some ps \<longrightarrow> batch_get_pairs E tr = ps))"
  and sendBatchReq_tasks_pairs:
  "cmdType = CmdRawBatchGet \<Longrightarrow>
     sendBatchReq_tasks n E c bo batches cmdType s = Some (rs, s') \<Longrightarrow>
     \<exists>tr. trace s' = trace s @ tr \<and>
          (\<forall>pss. (\<forall>br \<in> set rs. Error br = None) \<and> map result_pairs rs = map Some pss \<longrightarrow>
                 batch_get_pairs E tr = concat pss)"
proof (induction n E c bo keys cmdType s and n E c bo batch cmdType s
    and n E c bo batches cmdType s
    arbitrary: x fe s' and br s' and rs s'
    rule: sendBatchReq_doBatchReq_sendBatchReq_tasks.induct)
  case (1 E c bo keys cmdType s)
  then show ?case by simp
next
  case (2 n E c bo keys cmdType s)
  note IH = 2(1) and cmd = 2(2) and run = 2(3)
  obtain g s1 where g: "call_GroupKeysByRegion E c bo keys s = (g, s1)"
    by (cases "call_GroupKeysByRegion E c bo keys s")
  then have t1: "trace s1 = trace s @ [EvGroupKeysByRegion bo keys g]"
    by (auto simp: call_GroupKeysByRegion_def split: prod.splits)
  show ?case
  proof (cases g)
    case (Inl e)
    with run g t1 show ?thesis
      by auto
  next
    case (Inr groups)
    obtain bo' s2 where f: "call_Fork E bo s1 = (bo', s2)"
      by (cases "call_Fork E bo s1")
    then have t2: "trace s2 = trace s1 @ [EvFork bo bo']"
      by (auto simp: call_Fork_def split: prod.splits)
    let ?batches = "foldl (\<lambda>batches (regionID, groupKeys).
        AppendKeyBatches E batches regionID groupKeys rawBatchPairCount) [] groups"
    let ?acc = "\<lparr>Resp = Some (RawBatchGetResponse []), RegionErr = None\<rparr>"
    from run g Inr f cmd obtain rs s3 where
      tasks: "sendBatchReq_tasks n E c bo' ?batches cmdType s2 = Some (rs, s3)"
      and coll: "sendBatchReq_collect E bo' CmdRawBatchGet rs (Some ?acc) None s3 = ((x, fe), s')"
      by (auto split: option.splits)
    from IH [OF g [symmetric] Inr f [symmetric] cmd tasks] obtain tr where
      tr: "trace s3 = trace s2 @ tr"
        "\<forall>pss. (\<forall>br \<in> set rs. Error br = None) \<and> map result_pairs rs = map Some pss \<longrightarrow>
               batch_get_pairs E tr = concat pss"
      by blast
    from collect_trace [of E bo' CmdRawBatchGet rs "Some ?acc" None s3] coll obtain trc where
      trc: "trace s' = trace s3 @ trc"
      by auto
    have skip: "batch_get_pairs E (EvGroupKeysByRegion bo keys g # EvFork bo bo' # tr) =
        batch_get_pairs E tr"
      by (simp add: batch_get_pairs_skip delivered_def)
    show ?thesis
    proof (cases fe)
      case (Some e)
      with t1 t2 tr(1) trc show ?thesis
        by auto
    next
      case None
      from collect_batch_get [OF coll [unfolded None], of "[]"] obtain pss r where
        c: "s' = s3" "\<forall>br \<in> set rs. Error br = None" "map result_pairs rs = map Some pss"
          "x = Some r" "Resp r = Some (RawBatchGetResponse (concat pss))"
        by auto
      from tr(2) c(2,3) have "batch_get_pairs E tr = concat pss"
        by blast
      with skip t1 t2 tr(1) c show ?thesis
        by auto
    qed
  qed
next
  case (3 n E c bo batch cmdType s)
  note IH = 3(1) and cmd = 3(2) and run = 3(3)
  let ?req = "(NewRequest cmdType (RawBatchGetRequest (Keys batch)))
     \<lparr>MaxExecutionDurationMs := MaxWriteExecutionTime E\<rparr>"
  have reqeq: "(case cmdType of
              CmdRawBatchGet \<Rightarrow> Some (NewRequest cmdType (RawBatchGetRequest (Keys batch)))
            | CmdRawBatchDelete \<Rightarrow>
                Some (NewRequest cmdType (RawBatchDeleteRequest (Keys batch) (atomic c)))
            | _ \<Rightarrow> None) = Some (NewRequest cmdType (RawBatchGetRequest (Keys batch)))"
    by (simp add: cmd)
  obtain r1 s1 where sd: "call_SendReq E c bo ?req (RegionID batch) s = (r1, s1)"
    by (cases "call_SendReq E c bo ?req (RegionID batch) s")
  then have t1: "trace s1 = trace s @ [EvSendReq bo ?req (RegionID batch) r1]"
    by (auto simp: call_SendReq_def split: prod.splits)
  show ?case
  proof (cases r1)
    case (Inl e)
    with run sd cmd t1 show ?thesis
      by auto
  next
    case resp: (Inr resp)
    show ?thesis
    proof (cases "GetRegionError E resp")
      case (Inl e)
      with run sd cmd resp t1 show ?thesis
        by auto
    next
      case (Inr re)
      show ?thesis
      proof (cases re)
        case None
        with run sd cmd resp Inr have "br = \<lparr>Response = Some resp, Error = None\<rparr>" "s' = s1"
          by auto
        with t1 resp Inr None show ?thesis
          by (auto simp: result_pairs_def batch_get_pairs_def delivered_def
              split: option.splits RespBody.splits)
      next
        case (Some regionErr)
        obtain r2 s2 where b: "call_Backoff E bo BoRegionMiss (ErrNew regionErr) s1 = (r2, s2)"
          by (cases "call_Backoff E bo BoRegionMiss (ErrNew regionErr) s1")
        then have t2: "trace s2 = trace s1 @ [EvBackoff bo BoRegionMiss (ErrNew regionErr) r2]"
          by (auto simp: call_Backoff_def split: prod.splits)
        show ?thesis
        proof (cases r2)
          case exhausted: (Some e)
          with run sd cmd resp Inr Some b t1 t2 show ?thesis
            by auto
        next
          case None
          from run sd cmd resp Inr Some b None obtain x fe where
            again: "sendBatchReq n E c bo (Keys batch) cmdType s2 = Some ((x, fe), s')"
            and br: "br = \<lparr>Response = x, Error = fe\<rparr>"
            by (auto split: option.splits)
          from IH [OF reqeq sd [symmetric] resp Inr Some b [symmetric] None cmd again]
          obtain tr where
            tr: "trace s' = trace s2 @ tr"
              "fe = None \<longrightarrow>
                 (\<exists>r. x = Some r \<and> Resp r = Some (RawBatchGetResponse (batch_get_pairs E tr)))"
            by blast
          have "batch_get_pairs E (EvSendReq bo ?req (RegionID batch) r1 #
                  EvBackoff bo BoRegionMiss (ErrNew regionErr) r2 # tr) = batch_get_pairs E tr"
            using resp Inr Some by (simp add: batch_get_pairs_skip delivered_def)
          with t1 t2 tr br show ?thesis
            by (auto simp: result_pairs_def)
        qed
      qed
    qed
  qed
next
  case (4 n E c bo cmdType s)
  then show ?case by simp
next
  case (5 n E c bo batch rest cmdType s)
  note IH1 = 5(1) and IH2 = 5(2) and cmd = 5(3) and run = 5(4)
  obtain sb s1 where f: "call_Fork E bo s = (sb, s1)"
    by (cases "call_Fork E bo s")
  then have t1: "trace s1 = trace s @ [EvFork bo sb]"
    by (auto simp: call_Fork_def split: prod.splits)
  from run f obtain r s2 rs' where
    task: "doBatchReq n E c sb batch cmdType s1 = Some (r, s2)"
    and others: "sendBatchReq_tasks n E c bo rest cmdType (call_Cancel E sb s2) = Some (rs', s')"
    and rs: "rs = r # rs'"
    by (auto split: option.splits)
  have t3: "trace (call_Cancel E sb s2) = trace s2 @ [EvCancel sb]"
    by (simp add: call_Cancel_def)
  from IH2 [OF f [symmetric] task refl cmd others] obtain tr2 where
    tr2: "trace s' = trace (call_Cancel E sb s2) @ tr2"
      "\<forall>pss. (\<forall>br \<in> set rs'. Error br = None) \<and> map result_pairs rs' = map Some pss \<longrightarrow>
             batch_get_pairs E tr2 = concat pss"
    by auto
  from IH1 [OF f [symmetric] cmd task] obtain tr1 where
    tr1: "trace s2 = trace s1 @ tr1"
      "Error r = None \<longrightarrow> (\<forall>ps. result_pairs r = Some ps \<longrightarrow> batch_get_pairs E tr1 = ps)"
    by (elim exE conjE)
  have skipF: "batch_get_pairs E (EvFork bo sb # tr) = batch_get_pairs E tr" for tr
    by (simp add: batch_get_pairs_skip delivered_def)
  have skipC: "batch_get_pairs E (EvCancel sb # tr) = batch_get_pairs E tr" for tr
    by (simp add: batch_get_pairs_skip delivered_def)
  have pairs: "batch_get_pairs E (EvFork bo sb # tr1 @ EvCancel sb # tr2) =
      batch_get_pairs E tr1 @ batch_get_pairs E tr2"
    by (simp only: skipF batch_get_pairs_append skipC)
  have tr: "trace s' = trace s @ (EvFork bo sb # tr1 @ EvCancel sb # tr2)"
    using t1 t3 tr1(1) tr2(1) by simp
  show ?case
  proof (intro exI conjI allI impI)
    show "trace s' = trace s @ (EvFork bo sb # tr1 @ EvCancel sb # tr2)"
      by (rule tr)
  next
    fix pss
    assume a: "(\<forall>br \<in> set rs. Error br = None) \<and> map result_pairs rs = map Some pss"
    with rs obtain ps pss' where p:
      "pss = ps # pss'" "result_pairs r = Some ps" "map result_pairs rs' = map Some pss'"
      by (cases pss) auto
    from a rs have e: "Error r = None" "\<forall>br \<in> set rs'. Error br = None"
      by simp_all
    from tr1(2) e(1) p(2) have "batch_get_pairs E tr1 = ps"
      by blast
    moreover from tr2(2) e(2) p(3) have "batch_get_pairs E tr2 = concat pss'"
      by blast
    ultimately show "batch_get_pairs E (EvFork bo sb # tr1 @ EvCancel sb # tr2) = concat pss"
      using pairs p(1) by simp
  qed
qed

text \<open>
  C6. A \<open>BatchGet\<close> that succeeds returns one value for each key, in the order of the
  keys. The pairs it reads are those of the batch-get responses the servers gave without
  a region error, in the order the tasks received them. The value at an index is nil if
  none of these pairs has the key at that index, and otherwise the value of one of the
  pairs that have it (the last of them); equal keys get equal values.
\<close>

theorem BatchGet_association:
  assumes "BatchGet depth E c keys s = Some (Inr vals, s')"
  shows "\<exists>bo tr.
           trace s' = trace s @ EvNewBackoffer rawkvMaxBackoff bo # tr \<and>
           vals = map (last_value (batch_get_pairs E tr)) keys \<and>
           length vals = length keys \<and>
           (\<forall>i < length keys.
              (\<forall>p \<in> set (batch_get_pairs E tr). Key p \<noteq> keys ! i) \<longrightarrow> vals ! i = None) \<and>
           (\<forall>i < length keys.
              (\<exists>p \<in> set (batch_get_pairs E tr). Key p = keys ! i) \<longrightarrow>
              (\<exists>p \<in> set (batch_get_pairs E tr). Key p = keys ! i \<and> vals ! i = Val p)) \<and>
           (\<forall>i < length keys. \<forall>j < length keys. keys ! i = keys ! j \<longrightarrow> vals ! i = vals ! j)"
proof -
  obtain bo s0 where nb: "call_NewBackofferWithVars E rawkvMaxBackoff s = (bo, s0)"
    by (cases "call_NewBackofferWithVars E rawkvMaxBackoff s")
  then have t0: "trace s0 = trace s @ [EvNewBackoffer rawkvMaxBackoff bo]"
    by (auto simp: call_NewBackofferWithVars_def split: prod.splits)
  from assms nb obtain x fe s1 where
    run1: "sendBatchReq depth E c bo keys CmdRawBatchGet s0 = Some ((x, fe), s1)"
    by (cases "sendBatchReq depth E c bo keys CmdRawBatchGet s0") (auto simp: BatchGet_def)
  from assms nb run1 have fe: "fe = None"
    by (cases fe; cases x) (auto simp: BatchGet_def)
  from assms nb run1 fe have "s1 = s'"
    by (cases x) (auto simp: BatchGet_def split: option.splits RespBody.splits)
  with run1 have run: "sendBatchReq depth E c bo keys CmdRawBatchGet s0 = Some ((x, fe), s')"
    by simp
  from sendBatchReq_pairs [OF refl run] fe obtain tr r where
    tr: "trace s' = trace s0 @ tr" "x = Some r"
      "Resp r = Some (RawBatchGetResponse (batch_get_pairs E tr))"
    by auto
  from assms nb run fe tr(2,3) have
    vals: "vals = map (last_value (batch_get_pairs E tr)) keys"
    by (simp add: BatchGet_def BatchGet_values_map)
  have absent: "vals ! i = None"
    if "i < length keys" "\<forall>p \<in> set (batch_get_pairs E tr). Key p \<noteq> keys ! i" for i
    using that by (simp add: vals last_value_absent)
  have present: "\<exists>p \<in> set (batch_get_pairs E tr). Key p = keys ! i \<and> vals ! i = Val p"
    if "i < length keys" "\<exists>p \<in> set (batch_get_pairs E tr). Key p = keys ! i" for i
    using that last_value_present [of "batch_get_pairs E tr" "keys ! i"] by (simp add: vals)
  have same: "vals ! i = vals ! j"
    if "i < length keys" "j < length keys" "keys ! i = keys ! j" for i j
    using that by (simp add: vals)
  from t0 tr(1) have "trace s' = trace s @ EvNewBackoffer rawkvMaxBackoff bo # tr"
    by simp
  with vals absent present same show ?thesis
    by (intro exI [of _ bo] exI [of _ tr]) simp
qed

text \<open>
  On the example cluster: five keys, one of them twice and one that no server returns,
  fetched from the two regions.
\<close>

theorem BatchGet_association_witness:
  "\<exists>s' bo tr.
     BatchGet 2 example_env example_client [''z'', ''a'', ''n'', ''x'', ''a''] one_batch_get =
       Some (Inr [Some ''3'', Some ''1'', Some ''2'', None, Some ''1''], s') \<and>
     trace s' = trace one_batch_get @ EvNewBackoffer rawkvMaxBackoff bo # tr \<and>
     batch_get_pairs example_env tr =
       [\<lparr>Key = ''a'', Val = Some ''1''\<rparr>, \<lparr>Key = ''z'', Val = Some ''3''\<rparr>,
        \<lparr>Key = ''n'', Val = Some ''2''\<rparr>] \<and>
     [Some ''3'', Some ''1'', Some ''2'', None, Some ''1''] =
       map (last_value (batch_get_pairs example_env tr)) [''z'', ''a'', ''n'', ''x'', ''a'']"
proof -
  obtain s' where run:
    "BatchGet 2 example_env example_client [''z'', ''a'', ''n'', ''x'', ''a''] one_batch_get =
       Some (Inr [Some ''3'', Some ''1'', Some ''2'', None, Some ''1''], s')"
    and pairs: "batch_get_pairs example_env (trace s') =
       [\<lparr>Key = ''a'', Val = Some ''1''\<rparr>, \<lparr>Key = ''z'', Val = Some ''3''\<rparr>,
        \<lparr>Key = ''n'', Val = Some ''2''\<rparr>]"
    by (simp add: BatchGet_def example_defs call_defs one_batch_get_def eval_nat_numeral
        BatchGet_values_def BatchGet_keyToValue_def rawBatchPairCount_def NewRequest_def
        batch_get_pairs_def delivered_def)
  have t0: "trace one_batch_get = []"
    by (simp add: one_batch_get_def cluster_with_def)
  from BatchGet_association [OF run] have
    "\<exists>bo tr. trace s' = trace one_batch_get @ EvNewBackoffer rawkvMaxBackoff bo # tr \<and>
       [Some ''3'', Some ''1'', Some ''2'', None, Some ''1''] =
         map (last_value (batch_get_pairs example_env tr)) [''z'', ''a'', ''n'', ''x'', ''a'']"
    by (elim exE conjE, intro exI conjI) assumption+
  then obtain bo tr where
    tr: "trace s' = trace one_batch_get @ EvNewBackoffer rawkvMaxBackoff bo # tr"
      "[Some ''3'', Some ''1'', Some ''2'', None, Some ''1''] =
         map (last_value (batch_get_pairs example_env tr)) [''z'', ''a'', ''n'', ''x'', ''a'']"
    by (elim exE conjE)
  from tr(1) t0 pairs have "batch_get_pairs example_env tr =
       [\<lparr>Key = ''a'', Val = Some ''1''\<rparr>, \<lparr>Key = ''z'', Val = Some ''3''\<rparr>,
        \<lparr>Key = ''n'', Val = Some ''2''\<rparr>]"
    by (simp add: batch_get_pairs_skip delivered_def)
  with run tr show ?thesis
    by (intro exI [of _ s'] exI [of _ bo] exI [of _ tr] conjI)
qed

subsection \<open>Empty values\<close>

text \<open>
  C4. A write with an empty value (nil or of length zero) returns an argument error and
  leaves the world and the trace as they were: no lookup, no RPC. For \<open>PutWithTTL\<close> and
  \<open>Put\<close> the error is the one of the empty value; so it is for \<open>CompareAndSwap\<close> in
  atomic mode, and outside it the error says so; \<open>BatchPut\<close> with an empty value among
  its values returns the error of the empty value if the lengths of its lists agree, and
  the error of the lengths if not.
\<close>

theorem empty_value_rejected:
  "(len val = 0 \<longrightarrow>
      PutWithTTL E c key val ttl s = Some (Some (ErrNew ''empty value is not supported''), s) \<and>
      Put E c key val s = Some (Some (ErrNew ''empty value is not supported''), s) \<and>
      (\<exists>e. CompareAndSwap E c key previousValue val s = Some (Inl e, s) \<and> argument_error e \<and>
           (atomic c \<longrightarrow> e = ErrNew ''empty value is not supported''))) \<and>
   ((\<exists>v \<in> set vals. len v = 0) \<longrightarrow>
      (\<exists>e. BatchPut depth E c keys vals ttls s = Some (Some e, s) \<and> argument_error e \<and>
           (length keys = length vals \<and> (ttls = [] \<or> length ttls = length keys) \<longrightarrow>
              e = ErrNew ''empty value is not supported''))) \<and>
   argument_error (ErrNew ''empty value is not supported'')"
  by (auto simp: PutWithTTL_def Put_def CompareAndSwap_def BatchPut_def argument_error_def
      list_ex_iff)


theorem empty_value_rejected_witness:
  "len (Some []) = 0 \<and> len None = 0 \<and>
   PutWithTTL example_env example_client ''k'' (Some []) 7 (cluster_with []) =
     Some (Some (ErrNew ''empty value is not supported''), cluster_with []) \<and>
   Put example_env example_client ''k'' None (cluster_with []) =
     Some (Some (ErrNew ''empty value is not supported''), cluster_with []) \<and>
   atomic (SetAtomicForCAS example_client True) \<and>
   CompareAndSwap example_env (SetAtomicForCAS example_client True) ''k'' (Some ''1'') (Some [])
     (cluster_with []) =
     Some (Inl (ErrNew ''empty value is not supported''), cluster_with []) \<and>
   (\<exists>v \<in> set [Some ''1'', Some []]. len v = 0) \<and>
   BatchPut 5 example_env example_client [''a'', ''n''] [Some ''1'', Some []] [] (cluster_with []) =
     Some (Some (ErrNew ''empty value is not supported''), cluster_with [])"
proof -
  have e: "len (Some []) = 0" "len None = 0"
    by (simp_all add: len_def)
  have a: "atomic (SetAtomicForCAS example_client True)"
    by (simp add: SetAtomicForCAS_def)
  have v: "\<exists>v \<in> set [Some ''1'', Some []]. len v = 0"
    by (simp add: len_def)
  note r1 = empty_value_rejected [of "Some []" example_env example_client "''k''" 7
      "cluster_with []" "Some ''1''" "[Some ''1'', Some []]" 5 "[''a'', ''n'']" "[]"]
  note r2 = empty_value_rejected [of None example_env example_client "''k''" 0
      "cluster_with []" None "[]" 0 "[]" "[]"]
  note r3 = empty_value_rejected [of "Some []" example_env "SetAtomicForCAS example_client True"
      "''k''" 0 "cluster_with []" "Some ''1''" "[]" 0 "[]" "[]"]
  from r1 e have p1:
    "PutWithTTL example_env example_client ''k'' (Some []) 7 (cluster_with []) =
       Some (Some (ErrNew ''empty value is not supported''), cluster_with [])"
    by blast
  from r2 e have p2:
    "Put example_env example_client ''k'' None (cluster_with []) =
       Some (Some (ErrNew ''empty value is not supported''), cluster_with [])"
    by blast
  from r3 e a have p3:
    "CompareAndSwap example_env (SetAtomicForCAS example_client True) ''k'' (Some ''1'') (Some [])
       (cluster_with []) =
       Some (Inl (ErrNew ''empty value is not supported''), cluster_with [])"
    by blast
  from r1 v have p4:
    "BatchPut 5 example_env example_client [''a'', ''n''] [Some ''1'', Some []] [] (cluster_with []) =
       Some (Some (ErrNew ''empty value is not supported''), cluster_with [])"
    by auto
  from e a v p1 p2 p3 p4 show ?thesis
    by blast
qed

end
